theory Spec2Isabelle
  imports Complex_Main "HOL-Library.AList"
begin

section \<open>Errors and results\<close>

text \<open>
  The exceptions the program can raise.  A function that can raise and has no effect
  returns \<open>error + 'a\<close> (\<open>Inl\<close> the exception); a method that mutates its object returns
  the exception, if any, together with the object as the call leaves it, so that a
  mutation made before a \<open>raise\<close> stays visible.
\<close>

datatype error =
  ValueError | KeyError | TypeError | IndexError | ZeroDivisionError | NetworkXNoPath | NodeNotFound

type_synonym 's outcome = "error option \<times> 's"

section \<open>Domain value types\<close>

text \<open>
  The frozen dataclasses of \<open>brd_graph.py\<close>.  Python's \<open>int\<close> is \<open>int\<close>; its \<open>float\<close> is
  modelled by \<open>real\<close>.  The generated identity \<open>_uuid\<close> of a bus is a field like the
  others (the dataclass compares and hashes it), here \<open>uuid\<close>.  The field \<open>name\<close> of
  \<open>Bus\<close> is \<open>bus_name\<close>, since \<open>name\<close> is the field of \<open>Route\<close>.
\<close>

record Bus =
  bus_name :: string
  capacity :: int
  per_mile_emissions :: real
  procurement_price :: int
  annual_maintenance_cost :: int
  discomfort_level :: int
  avg_speed :: real
  uuid :: string

record Route =
  name :: string
  nodes :: "int list"

record ODFlow =
  origin :: int
  destination :: int
  flow :: int

record Operator =
  annual_salary :: int

definition BUS_OPERATOR_SALARY :: int where
  "BUS_OPERATOR_SALARY = 45028"

text \<open>The constructors, with the checks of \<open>__post_init__\<close>.\<close>

definition new_Route :: "string \<Rightarrow> int list \<Rightarrow> error + Route" where
  "new_Route n ns =
     (if length ns < 2 then Inl ValueError else Inr \<lparr>name = n, nodes = ns\<rparr>)"

definition Route_len :: "Route \<Rightarrow> int" where
  "Route_len self = int (length (nodes self)) - 1"

definition new_ODFlow :: "int \<Rightarrow> int \<Rightarrow> int \<Rightarrow> error + ODFlow" where
  "new_ODFlow orig dest f =
     (if f < 0 then Inl ValueError
      else if orig = dest then Inl ValueError
      else Inr \<lparr>origin = orig, destination = dest, flow = f\<rparr>)"

definition new_Operator :: "int \<Rightarrow> error + Operator" where
  "new_Operator s = (if s < 0 then Inl ValueError else Inr \<lparr>annual_salary = s\<rparr>)"

section \<open>Python values: truth and equality\<close>

text \<open>
  The objects that the comprehensions of \<open>FleetAssignment\<close> test with \<open>if\<close> and compare
  with \<open>==\<close>.  \<open>truth\<close> is Python's \<open>bool(x)\<close>: an instance of \<open>Bus\<close> defines neither
  \<open>__bool__\<close> nor \<open>__len__\<close> and is always true; \<open>Route\<close> defines \<open>__len__\<close>.  \<open>py_eq\<close> is
  \<open>==\<close>: the \<open>__eq__\<close> of a dataclass compares the fields of two instances of the same
  class and is \<open>NotImplemented\<close> for any other object, which makes \<open>==\<close> false.
\<close>

datatype pyobj = BusObj Bus | RouteObj Route | BoolObj bool | NoneObj

fun truth :: "pyobj \<Rightarrow> bool" where
  "truth (BusObj b) = True"
| "truth (RouteObj r) = (Route_len r \<noteq> 0)"
| "truth (BoolObj b) = b"
| "truth NoneObj = False"

fun py_eq :: "pyobj \<Rightarrow> pyobj \<Rightarrow> bool" where
  "py_eq (BusObj a) (BusObj b) = (a = b)"
| "py_eq (RouteObj a) (RouteObj b) = (a = b)"
| "py_eq (BoolObj a) (BoolObj b) = (a = b)"
| "py_eq NoneObj NoneObj = True"
| "py_eq _ _ = False"

section \<open>Dictionaries keyed by buses\<close>

text \<open>
  A \<open>dict\<close> is an association list in insertion order with one entry per key.
  \<open>d[k] = v\<close> is \<open>AList.update k v d\<close>: an entry that exists keeps its place, a new one
  goes to the end.  Iterating a dictionary (\<open>for x in d\<close>, \<open>zip(..., d)\<close>, \<open>all(d)\<close>,
  \<open>sum(d)\<close>) yields its keys.
\<close>

type_synonym 'v bus_dict = "(Bus \<times> 'v) list"

definition dict_get :: "'v bus_dict \<Rightarrow> Bus \<Rightarrow> error + 'v" where
  "dict_get d k = (case map_of d k of None \<Rightarrow> Inl KeyError | Some v \<Rightarrow> Inr v)"

definition dict_contains :: "'v bus_dict \<Rightarrow> Bus \<Rightarrow> bool" where
  "dict_contains d k = (map_of d k \<noteq> None)"

definition dict_from_keys :: "Bus list \<Rightarrow> 'v \<Rightarrow> 'v bus_dict" where
  "dict_from_keys ks v = foldl (\<lambda>d k. AList.update k v d) [] ks"

definition iter_dict :: "'v bus_dict \<Rightarrow> pyobj list" where
  "iter_dict d = map (\<lambda>kv. BusObj (fst kv)) d"

definition dict_eq :: "'v bus_dict \<Rightarrow> 'v bus_dict \<Rightarrow> bool" where
  "dict_eq d1 d2 =
     (length d1 = length d2 \<and> list_all (\<lambda>kv. map_of d2 (fst kv) = Some (snd kv)) d1)"

section \<open>Fleet composition\<close>

record FleetComposition =
  fleet :: "Bus list"
  operators :: "Operator list"

definition new_FleetComposition :: "Bus list \<Rightarrow> Operator list option \<Rightarrow> error + FleetComposition" where
  "new_FleetComposition fl ops =
     (if length fl < 1 then Inl ValueError
      else case ops of
        None \<Rightarrow> Inr \<lparr>fleet = fl,
                      operators = replicate (length fl) \<lparr>annual_salary = BUS_OPERATOR_SALARY\<rparr>\<rparr>
      | Some os \<Rightarrow> if length os \<noteq> length fl then Inl ValueError
                   else Inr \<lparr>fleet = fl, operators = os\<rparr>)"

definition total_capacity :: "FleetComposition \<Rightarrow> int" where
  "total_capacity self = sum_list [capacity bus. bus \<leftarrow> fleet self]"

definition total_capital_cost :: "FleetComposition \<Rightarrow> int" where
  "total_capital_cost self = sum_list [procurement_price bus. bus \<leftarrow> fleet self]"

definition total_operational_cost :: "FleetComposition \<Rightarrow> int" where
  "total_operational_cost self =
     sum_list [annual_salary op. op \<leftarrow> operators self]
     + sum_list [annual_maintenance_cost bus. bus \<leftarrow> fleet self]"

definition num_buses :: "FleetComposition \<Rightarrow> int" where
  "num_buses self = int (length (fleet self))"

section \<open>Fleet assignment\<close>

record FleetAssignment =
  composition :: FleetComposition
  assigned_buses :: "bool bus_dict"
  assigned_bus_routes :: "Route option bus_dict"

definition new_FleetAssignment ::
  "FleetComposition \<Rightarrow> bool bus_dict option \<Rightarrow> Route option bus_dict option \<Rightarrow> FleetAssignment" where
  "new_FleetAssignment c ab abr =
     \<lparr>composition = c,
      assigned_buses = (case ab of None \<Rightarrow> dict_from_keys (fleet c) False | Some d \<Rightarrow> d),
      assigned_bus_routes = (case abr of None \<Rightarrow> dict_from_keys (fleet c) None | Some d \<Rightarrow> d)\<rparr>"

definition assign_bus_to_route :: "Bus \<Rightarrow> Route \<Rightarrow> FleetAssignment \<Rightarrow> FleetAssignment outcome" where
  "assign_bus_to_route bus route self =
     (if \<not> dict_contains (assigned_buses self) bus then (Some ValueError, self)
      else if map_of (assigned_buses self) bus = Some True then (Some ValueError, self)
      else (None, self\<lparr>assigned_buses := AList.update bus True (assigned_buses self),
                        assigned_bus_routes := AList.update bus (Some route) (assigned_bus_routes self)\<rparr>))"

text \<open>
  The operands of \<open>zip\<close> in the queries below are the fleet (a list) and the two
  dictionaries themselves, so the names \<open>assigned\<close> and \<open>assigned_route\<close> of the source
  are bound to keys of the dictionaries, that is to buses.
\<close>

definition zip3 :: "'a list \<Rightarrow> 'b list \<Rightarrow> 'c list \<Rightarrow> ('a \<times> 'b \<times> 'c) list" where
  "zip3 xs ys zs = zip xs (zip ys zs)"

definition capacity_for_route :: "FleetAssignment \<Rightarrow> Route \<Rightarrow> int" where
  "capacity_for_route self route =
     sum_list [capacity bus.
       (bus, assigned, assigned_route) \<leftarrow>
         zip3 (fleet (composition self)) (iter_dict (assigned_buses self))
              (iter_dict (assigned_bus_routes self)),
       truth assigned \<and> py_eq assigned_route (RouteObj route)]"

definition capital_cost_for_route :: "FleetAssignment \<Rightarrow> Route \<Rightarrow> int" where
  "capital_cost_for_route self route =
     sum_list [procurement_price bus.
       (bus, assigned, assigned_route) \<leftarrow>
         zip3 (fleet (composition self)) (iter_dict (assigned_buses self))
              (iter_dict (assigned_bus_routes self)),
       truth assigned \<and> py_eq assigned_route (RouteObj route)]"

definition operational_cost_for_route :: "FleetAssignment \<Rightarrow> Route \<Rightarrow> int" where
  "operational_cost_for_route self route =
     (let gen_1 = zip3 (operators (composition self)) (iter_dict (assigned_buses self))
                       (iter_dict (assigned_bus_routes self));
          gen_2 = zip3 (fleet (composition self)) (iter_dict (assigned_buses self))
                       (iter_dict (assigned_bus_routes self))
      in sum_list [annual_salary op. (op, assigned, assigned_route) \<leftarrow> gen_1,
                     truth assigned \<and> py_eq assigned_route (RouteObj route)]
         + sum_list [annual_maintenance_cost bus. (bus, assigned, assigned_route) \<leftarrow> gen_2,
                       truth assigned \<and> py_eq assigned_route (RouteObj route)])"

definition total_emissions :: "FleetAssignment \<Rightarrow> real" where
  "total_emissions self =
     sum_list [per_mile_emissions bus.
       (bus, assigned) \<leftarrow> zip (fleet (composition self)) (iter_dict (assigned_buses self)),
       truth assigned]"

definition emissions_for_route :: "FleetAssignment \<Rightarrow> Route \<Rightarrow> real" where
  "emissions_for_route self route =
     (let gen = zip3 (fleet (composition self)) (iter_dict (assigned_buses self))
                     (iter_dict (assigned_bus_routes self))
      in sum_list [per_mile_emissions bus. (bus, assigned, assigned_route) \<leftarrow> gen,
                     truth assigned \<and> py_eq assigned_route (RouteObj route)])"

definition buses_assigned :: "FleetAssignment \<Rightarrow> bool" where
  "buses_assigned self = list_all truth (iter_dict (assigned_buses self))"

definition num_buses_assigned_to_route :: "FleetAssignment \<Rightarrow> Route \<Rightarrow> int" where
  "num_buses_assigned_to_route self route =
     (let gen = zip3 (fleet (composition self)) (iter_dict (assigned_buses self))
                     (iter_dict (assigned_bus_routes self))
      in sum_list [1. (_, assigned, assigned_route) \<leftarrow> gen,
                     truth assigned \<and> py_eq assigned_route (RouteObj route)])"

section \<open>Graphs\<close>

text \<open>
  The attribute dictionary of an edge, restricted to the four keys the program reads;
  \<open>None\<close> is an absent key.  The key \<open>'type'\<close> is the field \<open>etype\<close>.
\<close>

record edge_data =
  weight :: "real option"
  etype :: "string option"
  route_id :: "string option"
  discomfort :: "int option"

text \<open>
  The street network is an undirected \<open>nx.Graph\<close>: its edges, each once, in the order in
  which \<open>edges\<close> reports them; its nodes are the end points of its edges.  A service
  network is an \<open>nx.MultiDiGraph\<close>: directed edges \<open>(u, v, key, data)\<close> in insertion order.
\<close>

type_synonym graph = "(int \<times> int \<times> edge_data) list"

type_synonym multidigraph = "(int \<times> int \<times> int \<times> edge_data) list"

definition graph_nodes :: "graph \<Rightarrow> int list" where
  "graph_nodes g = remdups (concat [[u, v]. (u, v, dd) \<leftarrow> g])"

definition graph_edge :: "graph \<Rightarrow> int \<Rightarrow> int \<Rightarrow> error + edge_data" where
  \<comment> \<open>\<open>g[u][v]\<close>\<close>
  "graph_edge g u v =
     (case [dd. (a, b, dd) \<leftarrow> g, (a = u \<and> b = v) \<or> (a = v \<and> b = u)] of
        [] \<Rightarrow> Inl KeyError
      | dd # _ \<Rightarrow> Inr dd)"

definition has_edge :: "graph \<Rightarrow> int \<Rightarrow> int \<Rightarrow> bool" where
  "has_edge g u v = (\<exists>e \<in> set g. (fst e = u \<and> fst (snd e) = v) \<or> (fst e = v \<and> fst (snd e) = u))"

fun reach :: "nat \<Rightarrow> graph \<Rightarrow> int list \<Rightarrow> int list" where
  "reach 0 g seen = seen"
| "reach (Suc n) g seen =
     reach n g (remdups (seen @ [b. (a, b, dd) \<leftarrow> g, a \<in> set seen]
                              @ [a. (a, b, dd) \<leftarrow> g, b \<in> set seen]))"

definition has_path :: "graph \<Rightarrow> int \<Rightarrow> int \<Rightarrow> error + bool" where
  \<comment> \<open>\<open>nx.has_path\<close>: reachability, an error for a node that is not in the graph\<close>
  "has_path g s t =
     (if s \<notin> set (graph_nodes g) \<or> t \<notin> set (graph_nodes g) then Inl NodeNotFound
      else Inr (t \<in> set (reach (length g) g [s])))"

text \<open>
  \<open>g.edges(data=True)\<close> yields, for a \<open>Graph\<close>, one tuple \<open>(u, v, data)\<close> per edge, as the
  constructor's own check of the weights reads it (\<open>for _, _, edge_data in ...\<close>).
  A tuple is the list of its components.
\<close>

datatype pyval = IntVal int | DictVal edge_data

definition edges_data :: "graph \<Rightarrow> pyval list list" where
  "edges_data g = [[IntVal u, IntVal v, DictVal dd]. (u, v, dd) \<leftarrow> g]"

definition unpack4 :: "pyval list \<Rightarrow> error + (pyval \<times> pyval \<times> pyval \<times> pyval)" where
  \<comment> \<open>the targets \<open>u, v, key, data\<close> of a \<open>for\<close>: a tuple of any other size raises \<open>ValueError\<close>\<close>
  "unpack4 t = (case t of [a, b, c, d] \<Rightarrow> Inr (a, b, c, d) | _ \<Rightarrow> Inl ValueError)"

text \<open>Keys of parallel edges: \<open>MultiDiGraph.new_edge_key\<close> and \<open>add_edge\<close>.\<close>

definition edge_keys :: "multidigraph \<Rightarrow> int \<Rightarrow> int \<Rightarrow> int list" where
  "edge_keys g u v = [k. (a, b, k, dd) \<leftarrow> g, a = u \<and> b = v]"

function new_edge_key_loop :: "int list \<Rightarrow> int \<Rightarrow> int" where
  "new_edge_key_loop ks key = (if key \<in> set ks then new_edge_key_loop ks (key + 1) else key)"
  by pat_completeness auto
termination
proof (relation "measure (\<lambda>(ks, key). length (filter (\<lambda>k. key \<le> k) ks))")
  show "wf (measure (\<lambda>(ks, key). length (filter (\<lambda>k. key \<le> k) ks)))"
    by simp
next
  fix ks :: "int list" and key :: int
  assume mem: "key \<in> set ks"
  have "filter (\<lambda>k. key + 1 \<le> k) ks = filter (\<lambda>k. key + 1 \<le> k) (filter (\<lambda>k. key \<le> k) ks)"
    by (induction ks) auto
  moreover have "length (filter (\<lambda>k. key + 1 \<le> k) (filter (\<lambda>k. key \<le> k) ks))
                   < length (filter (\<lambda>k. key \<le> k) ks)"
    by (rule length_filter_less [of key]) (use mem in auto)
  ultimately show "((ks, key + 1), (ks, key)) \<in> measure (\<lambda>(ks, key). length (filter (\<lambda>k. key \<le> k) ks))"
    by simp
qed

definition new_edge_key :: "multidigraph \<Rightarrow> int \<Rightarrow> int \<Rightarrow> int" where
  "new_edge_key g u v = new_edge_key_loop (edge_keys g u v) (int (length (edge_keys g u v)))"

definition dict_update :: "edge_data \<Rightarrow> edge_data \<Rightarrow> edge_data" where
  \<comment> \<open>\<open>old.update(new)\<close>\<close>
  "dict_update old new =
     \<lparr>weight = (case weight new of None \<Rightarrow> weight old | Some x \<Rightarrow> Some x),
      etype = (case etype new of None \<Rightarrow> etype old | Some x \<Rightarrow> Some x),
      route_id = (case route_id new of None \<Rightarrow> route_id old | Some x \<Rightarrow> Some x),
      discomfort = (case discomfort new of None \<Rightarrow> discomfort old | Some x \<Rightarrow> Some x)\<rparr>"

definition add_edge :: "int \<Rightarrow> int \<Rightarrow> int option \<Rightarrow> edge_data \<Rightarrow> multidigraph \<Rightarrow> multidigraph" where
  "add_edge u v key attr g =
     (let k = (case key of None \<Rightarrow> new_edge_key g u v | Some k' \<Rightarrow> k')
      in if k \<in> set (edge_keys g u v)
         then [if a = u \<and> b = v \<and> k'' = k then (a, b, k'', dict_update dd attr) else (a, b, k'', dd).
                 (a, b, k'', dd) \<leftarrow> g]
         else g @ [(u, v, k, attr)])"

definition multi_edge0 :: "multidigraph \<Rightarrow> int \<Rightarrow> int \<Rightarrow> error + edge_data" where
  \<comment> \<open>\<open>graph[u][v][0]\<close>\<close>
  "multi_edge0 g u v =
     (case [dd. (a, b, k, dd) \<leftarrow> g, a = u \<and> b = v \<and> k = 0] of
        [] \<Rightarrow> Inl KeyError
      | dd # _ \<Rightarrow> Inr dd)"

section \<open>Service network design\<close>

record ServiceNetworkDesign =
  routes :: "Route list"
  od_flows :: "ODFlow list"
  fleet_composition :: FleetComposition
  street_network_graph :: graph
  fleet_assignments :: "FleetAssignment list"
  service_network_graphs :: "multidigraph list"

fun first_error :: "(error + bool) list \<Rightarrow> error + bool" where
  \<comment> \<open>a loop that raises on the first element whose check raises or is false\<close>
  "first_error [] = Inr True"
| "first_error (Inl e # cs) = Inl e"
| "first_error (Inr ok # cs) = (if ok then first_error cs else Inl ValueError)"

definition new_ServiceNetworkDesign ::
  "Route list \<Rightarrow> ODFlow list \<Rightarrow> FleetComposition \<Rightarrow> graph \<Rightarrow> error + ServiceNetworkDesign" where
  "new_ServiceNetworkDesign rs ods fc g =
     (if length rs < 1 then Inl ValueError
      else if length ods < 1 then Inl ValueError
      else if length (fleet fc) < length rs then Inl ValueError
      else if card (set [name route. route \<leftarrow> rs]) \<noteq> length rs then Inl ValueError
      else case first_error [has_path g (origin od) (destination od). od \<leftarrow> ods] of
        Inl e \<Rightarrow> Inl e
      | Inr _ \<Rightarrow>
          if \<not> list_all (\<lambda>route. list_all (\<lambda>(u, v). has_edge g u v)
                                   (zip (butlast (nodes route)) (tl (nodes route)))) rs
          then Inl ValueError
          else if \<not> list_all (\<lambda>(u, v, dd). weight dd \<noteq> None) g then Inl ValueError
          else Inr \<lparr>routes = rs, od_flows = ods, fleet_composition = fc,
                    street_network_graph = g, fleet_assignments = [],
                    service_network_graphs = []\<rparr>)"

text \<open>
  \<open>_get_empty_service_network_graph\<close>: the generator unpacks each tuple of
  \<open>edges(data=True)\<close> into \<open>u, v, key, data\<close>, keeps it unless \<open>data.get('type')\<close> is
  \<open>'distance'\<close>, and \<open>MultiDiGraph\<close> adds the tuples it yields as edges with their keys.
  What \<open>nx.MultiDiGraph\<close> does with a generator that raises is library code and differs
  between versions of networkx: it is the parameter \<open>on_edge_error\<close>, a function of the
  exception that gives the exception the constructor raises or the graph it returns.
\<close>

fun from_edge_tuples :: "pyval list list \<Rightarrow> multidigraph \<Rightarrow> error + multidigraph" where
  "from_edge_tuples [] acc = Inr acc"
| "from_edge_tuples (t # ts) acc =
     (case unpack4 t of
        Inl e \<Rightarrow> Inl e
      | Inr (IntVal u, IntVal v, IntVal key, DictVal dat) \<Rightarrow>
          if etype dat \<noteq> Some ''distance''
          then from_edge_tuples ts (add_edge u v (Some key) dat acc)
          else from_edge_tuples ts acc
      | Inr _ \<Rightarrow> Inl TypeError)"

definition get_empty_service_network_graph ::
  "(error \<Rightarrow> error + multidigraph) \<Rightarrow> ServiceNetworkDesign \<Rightarrow> error + multidigraph" where
  "get_empty_service_network_graph on_edge_error self =
     (case from_edge_tuples (edges_data (street_network_graph self)) [] of
        Inl e \<Rightarrow> on_edge_error e
      | Inr g \<Rightarrow> Inr g)"

text \<open>\<open>_update_service_network_graphs\<close>, its three nested loops innermost first.\<close>

fun add_bus_edges ::
  "graph \<Rightarrow> Route \<Rightarrow> Bus \<Rightarrow> (int \<times> int) list \<Rightarrow> multidigraph \<Rightarrow> error + multidigraph" where
  "add_bus_edges street route bus [] g = Inr g"
| "add_bus_edges street route bus ((u, v) # uvs) g =
     (case graph_edge street u v of
        Inl e \<Rightarrow> Inl e
      | Inr dd \<Rightarrow>
          (case weight dd of
             None \<Rightarrow> Inl KeyError
           | Some w \<Rightarrow>
               if avg_speed bus = 0 then Inl ZeroDivisionError
               else add_bus_edges street route bus uvs
                      (add_edge u v None
                         \<lparr>weight = Some (w / avg_speed bus), etype = Some ''bus'',
                          route_id = Some (name route),
                          discomfort = Some (discomfort_level bus)\<rparr> g)))"

fun add_buses_of_route ::
  "graph \<Rightarrow> FleetAssignment \<Rightarrow> Route \<Rightarrow> Bus list \<Rightarrow> multidigraph \<Rightarrow> error + multidigraph" where
  "add_buses_of_route street assignment route [] g = Inr g"
| "add_buses_of_route street assignment route (bus # buses) g =
     (case dict_get (assigned_buses assignment) bus of
        Inl e \<Rightarrow> Inl e
      | Inr assigned \<Rightarrow>
          if \<not> assigned then add_buses_of_route street assignment route buses g
          else (case dict_get (assigned_bus_routes assignment) bus of
                  Inl e \<Rightarrow> Inl e
                | Inr r \<Rightarrow>
                    if r \<noteq> Some route then add_buses_of_route street assignment route buses g
                    else (case add_bus_edges street route bus
                                 (zip (butlast (nodes route)) (tl (nodes route))) g of
                            Inl e \<Rightarrow> Inl e
                          | Inr g' \<Rightarrow> add_buses_of_route street assignment route buses g')))"

fun add_routes ::
  "graph \<Rightarrow> FleetAssignment \<Rightarrow> Bus list \<Rightarrow> Route list \<Rightarrow> multidigraph \<Rightarrow> error + multidigraph" where
  "add_routes street assignment buses [] g = Inr g"
| "add_routes street assignment buses (route # rs) g =
     (case add_buses_of_route street assignment route buses g of
        Inl e \<Rightarrow> Inl e
      | Inr g' \<Rightarrow> add_routes street assignment buses rs g')"

definition update_service_network_graphs ::
  "(error \<Rightarrow> error + multidigraph) \<Rightarrow> ServiceNetworkDesign \<Rightarrow> ServiceNetworkDesign outcome" where
  "update_service_network_graphs on_edge_error self =
     (case get_empty_service_network_graph on_edge_error self of
        Inl e \<Rightarrow> (Some e, self)
      | Inr service_network_graph \<Rightarrow>
          if fleet_assignments self = [] then (Some IndexError, self)
          else (case add_routes (street_network_graph self) (last (fleet_assignments self))
                       (fleet (fleet_composition self)) (routes self) service_network_graph of
                  Inl e \<Rightarrow> (Some e, self)
                | Inr g \<Rightarrow>
                    (None, self\<lparr>service_network_graphs := service_network_graphs self @ [g]\<rparr>)))"

text \<open>
  \<open>assign_buses\<close>.  The routine is a function of the copy of the design it is given.
\<close>

definition assign_buses ::
  "(error \<Rightarrow> error + multidigraph) \<Rightarrow> (ServiceNetworkDesign \<Rightarrow> FleetAssignment) \<Rightarrow>
   ServiceNetworkDesign \<Rightarrow> ServiceNetworkDesign outcome" where
  "assign_buses on_edge_error bus_assignment_routine self =
     (let new_assignment = bus_assignment_routine self
      in if \<not> buses_assigned new_assignment then (Some ValueError, self)
         else update_service_network_graphs on_edge_error
                (self\<lparr>fleet_assignments := fleet_assignments self @ [new_assignment]\<rparr>))"

text \<open>
  \<open>list.remove\<close> and \<open>list.index\<close> compare with \<open>==\<close>, for a \<open>FleetAssignment\<close> the
  equality of its three fields; two dictionaries are equal when they hold the same
  entries, in any order.
\<close>

definition fa_eq :: "FleetAssignment \<Rightarrow> FleetAssignment \<Rightarrow> bool" where
  "fa_eq a b =
     (composition a = composition b \<and> dict_eq (assigned_buses a) (assigned_buses b)
      \<and> dict_eq (assigned_bus_routes a) (assigned_bus_routes b))"

fun list_remove :: "FleetAssignment list \<Rightarrow> FleetAssignment \<Rightarrow> error + FleetAssignment list" where
  "list_remove [] x = Inl ValueError"
| "list_remove (y # ys) x =
     (if fa_eq y x then Inr ys
      else case list_remove ys x of Inl e \<Rightarrow> Inl e | Inr ys' \<Rightarrow> Inr (y # ys'))"

fun list_index :: "FleetAssignment list \<Rightarrow> FleetAssignment \<Rightarrow> error + nat" where
  "list_index [] x = Inl ValueError"
| "list_index (y # ys) x =
     (if fa_eq y x then Inr 0
      else case list_index ys x of Inl e \<Rightarrow> Inl e | Inr i \<Rightarrow> Inr (Suc i))"

definition remove_assignment :: "FleetAssignment \<Rightarrow> ServiceNetworkDesign \<Rightarrow> ServiceNetworkDesign outcome" where
  "remove_assignment assignment self =
     (case list_remove (fleet_assignments self) assignment of
        Inl e \<Rightarrow> (Some e, self)
      | Inr xs \<Rightarrow> (None, self\<lparr>fleet_assignments := xs\<rparr>))"

definition remove_all_assignments :: "ServiceNetworkDesign \<Rightarrow> ServiceNetworkDesign outcome" where
  "remove_all_assignments self = (None, self\<lparr>fleet_assignments := []\<rparr>)"

section \<open>Flow analysis\<close>

text \<open>
  \<open>analyze_flow_for_assignment\<close>.  \<open>nx.shortest_path\<close> is library code and is a parameter
  \<open>shortest_path\<close> here: it returns the node sequence of a path or raises.  The local
  variables of the loop are the fields of \<open>walk_state\<close> (\<open>transfers\<close> and \<open>discomfort\<close> of
  the source are \<open>transfer_count\<close> and \<open>discomfort_sum\<close>); \<open>prev_route\<close> is \<open>None\<close> or a
  route name, and is true as a condition when it is a name other than the empty string.
\<close>

record walk_state =
  total_time :: real
  unique_routes :: "string set"
  transfer_count :: int
  discomfort_sum :: int
  prev_route :: "string option"
  segments :: int

record flow_analysis =
  average_travel_time :: real
  number_of_hops :: int
  number_of_services :: int
  transfers :: int
  average_discomfort :: real

definition str_truth :: "string option \<Rightarrow> bool" where
  "str_truth s = (case s of None \<Rightarrow> False | Some x \<Rightarrow> x \<noteq> [])"

definition walk_edge :: "multidigraph \<Rightarrow> int \<times> int \<Rightarrow> walk_state \<Rightarrow> error + walk_state" where
  "walk_edge g uv st =
     (case multi_edge0 g (fst uv) (snd uv) of
        Inl e \<Rightarrow> Inl e
      | Inr dat \<Rightarrow>
          (case weight dat of
             None \<Rightarrow> Inl KeyError
           | Some w \<Rightarrow>
               (let st1 = st\<lparr>total_time := total_time st + w\<rparr>
                in case etype dat of
                     None \<Rightarrow> Inl KeyError
                   | Some ty \<Rightarrow>
                       if ty \<noteq> ''bus'' then Inr st1
                       else (case route_id dat of
                               None \<Rightarrow> Inl KeyError
                             | Some rid \<Rightarrow>
                                 (case discomfort dat of
                                    None \<Rightarrow> Inl KeyError
                                  | Some dc \<Rightarrow>
                                      Inr (st1\<lparr>unique_routes := insert rid (unique_routes st1),
                                               discomfort_sum := discomfort_sum st1 + dc,
                                               transfer_count :=
                                                 (if str_truth (prev_route st1) \<and> prev_route st1 \<noteq> Some rid
                                                  then transfer_count st1 + 1
                                                  else transfer_count st1),
                                               prev_route := Some rid,
                                               segments := segments st1 + 1\<rparr>))))))"

fun walk :: "multidigraph \<Rightarrow> (int \<times> int) list \<Rightarrow> walk_state \<Rightarrow> error + walk_state" where
  "walk g [] st = Inr st"
| "walk g (uv # uvs) st =
     (case walk_edge g uv st of Inl e \<Rightarrow> Inl e | Inr st' \<Rightarrow> walk g uvs st')"

definition analyze_path :: "multidigraph \<Rightarrow> int list \<Rightarrow> error + flow_analysis" where
  "analyze_path g path =
     (let edges = zip path (tl path);
          total_edges = int (length edges)
      in case walk g edges \<lparr>total_time = 0, unique_routes = {}, transfer_count = 0,
                             discomfort_sum = 0, prev_route = None, segments = 0\<rparr> of
           Inl e \<Rightarrow> Inl e
         | Inr st \<Rightarrow>
             Inr \<lparr>average_travel_time =
                    (if total_edges > 0 then total_time st / real_of_int total_edges else 0),
                  number_of_hops = total_edges,
                  number_of_services = int (card (unique_routes st)),
                  transfers = transfer_count st,
                  average_discomfort =
                    (if segments st > 0
                     then real_of_int (discomfort_sum st) / real_of_int (segments st) else 0)\<rparr>)"

definition analyze_flow_for_assignment ::
  "(multidigraph \<Rightarrow> int \<Rightarrow> int \<Rightarrow> error + int list) \<Rightarrow> ServiceNetworkDesign \<Rightarrow>
   FleetAssignment \<Rightarrow> ODFlow \<Rightarrow> error + flow_analysis" where
  "analyze_flow_for_assignment shortest_path self assignment od_flow =
     (case list_index (fleet_assignments self) assignment of
        Inl e \<Rightarrow> Inl e
      | Inr i \<Rightarrow>
          if i \<ge> length (service_network_graphs self) then Inl IndexError
          else (let g = service_network_graphs self ! i
                in case shortest_path g (origin od_flow) (destination od_flow) of
                     Inl e \<Rightarrow> Inl e
                   | Inr path \<Rightarrow> analyze_path g path))"

section \<open>Demand-weighted aggregates\<close>

text \<open>
  The four aggregates have one shape: the sum over the OD flows of a metric of the flow's
  analysis times the flow, divided by the sum of the flows.  The numerator is evaluated
  first, flow by flow, so an analysis that raises does so before the division.
\<close>

fun weighted_metrics ::
  "(multidigraph \<Rightarrow> int \<Rightarrow> int \<Rightarrow> error + int list) \<Rightarrow> ServiceNetworkDesign \<Rightarrow>
   FleetAssignment \<Rightarrow> (flow_analysis \<Rightarrow> real) \<Rightarrow> ODFlow list \<Rightarrow> error + real list" where
  "weighted_metrics shortest_path self assignment metric [] = Inr []"
| "weighted_metrics shortest_path self assignment metric (od_flow # ods) =
     (case analyze_flow_for_assignment shortest_path self assignment od_flow of
        Inl e \<Rightarrow> Inl e
      | Inr r \<Rightarrow>
          (case weighted_metrics shortest_path self assignment metric ods of
             Inl e \<Rightarrow> Inl e
           | Inr xs \<Rightarrow> Inr (metric r * real_of_int (flow od_flow) # xs)))"

definition demand_weighted_mean ::
  "(multidigraph \<Rightarrow> int \<Rightarrow> int \<Rightarrow> error + int list) \<Rightarrow> ServiceNetworkDesign \<Rightarrow>
   FleetAssignment \<Rightarrow> (flow_analysis \<Rightarrow> real) \<Rightarrow> error + real" where
  "demand_weighted_mean shortest_path self assignment metric =
     (case weighted_metrics shortest_path self assignment metric (od_flows self) of
        Inl e \<Rightarrow> Inl e
      | Inr xs \<Rightarrow>
          if sum_list [flow od_flow. od_flow \<leftarrow> od_flows self] = 0 then Inl ZeroDivisionError
          else Inr (sum_list xs / real_of_int (sum_list [flow od_flow. od_flow \<leftarrow> od_flows self])))"

definition avg_travel_time_for_assignment ::
  "(multidigraph \<Rightarrow> int \<Rightarrow> int \<Rightarrow> error + int list) \<Rightarrow> ServiceNetworkDesign \<Rightarrow>
   FleetAssignment \<Rightarrow> error + real" where
  "avg_travel_time_for_assignment shortest_path self assignment =
     demand_weighted_mean shortest_path self assignment average_travel_time"

definition avg_discomfort_level_for_assignment ::
  "(multidigraph \<Rightarrow> int \<Rightarrow> int \<Rightarrow> error + int list) \<Rightarrow> ServiceNetworkDesign \<Rightarrow>
   FleetAssignment \<Rightarrow> error + real" where
  "avg_discomfort_level_for_assignment shortest_path self assignment =
     demand_weighted_mean shortest_path self assignment average_discomfort"

definition avg_transfers_for_assignment ::
  "(multidigraph \<Rightarrow> int \<Rightarrow> int \<Rightarrow> error + int list) \<Rightarrow> ServiceNetworkDesign \<Rightarrow>
   FleetAssignment \<Rightarrow> error + real" where
  "avg_transfers_for_assignment shortest_path self assignment =
     demand_weighted_mean shortest_path self assignment (\<lambda>r. real_of_int (transfers r))"

definition avg_hops_for_assignment ::
  "(multidigraph \<Rightarrow> int \<Rightarrow> int \<Rightarrow> error + int list) \<Rightarrow> ServiceNetworkDesign \<Rightarrow>
   FleetAssignment \<Rightarrow> error + real" where
  "avg_hops_for_assignment shortest_path self assignment =
     demand_weighted_mean shortest_path self assignment (\<lambda>r. real_of_int (number_of_hops r))"

section \<open>Notions the claims are stated with\<close>


definition flags_cover_fleet :: "FleetAssignment \<Rightarrow> bool" where
  "flags_cover_fleet fa = (set (map fst (assigned_buses fa)) = set (fleet (composition fa)))"

text \<open>
  For the flow analysis: the consecutive node pairs of a path; the attribute
  dictionaries the walk reads for them (for each pair the parallel edge with key 0, its
  \<^emph>\<open>traversed\<close> edge); the pairs the walk can read without a \<open>KeyError\<close>; the traversed
  edges tagged \<open>bus\<close> and their route names in path order.  \<open>route_changes\<close> counts the
  places where a name differs from the name before it; \<open>counted_changes\<close> counts those
  among them where the name before is not the empty string.
\<close>

definition path_edges :: "int list \<Rightarrow> (int \<times> int) list" where
  "path_edges path = zip path (tl path)"

definition traversed :: "multidigraph \<Rightarrow> (int \<times> int) list \<Rightarrow> edge_data list" where
  "traversed g uvs =
     concat [case multi_edge0 g (fst uv) (snd uv) of Inl e \<Rightarrow> [] | Inr dd \<Rightarrow> [dd]. uv \<leftarrow> uvs]"

definition edge_ok :: "multidigraph \<Rightarrow> int \<times> int \<Rightarrow> bool" where
  "edge_ok g uv =
     (case multi_edge0 g (fst uv) (snd uv) of
        Inl e \<Rightarrow> False
      | Inr dd \<Rightarrow> weight dd \<noteq> None \<and> etype dd \<noteq> None
                  \<and> (if etype dd = Some ''bus'' then route_id dd \<noteq> None \<and> discomfort dd \<noteq> None
                      else True))"

definition bus_edges :: "edge_data list \<Rightarrow> edge_data list" where
  "bus_edges ds = filter (\<lambda>dd. etype dd = Some ''bus'') ds"

definition route_names :: "edge_data list \<Rightarrow> string list" where
  "route_names ds = List.map_filter route_id (bus_edges ds)"

fun route_changes :: "string list \<Rightarrow> int" where
  "route_changes (a # b # xs) = (if a \<noteq> b then 1 else 0) + route_changes (b # xs)"
| "route_changes xs = 0"

fun counted_changes :: "string list \<Rightarrow> int" where
  "counted_changes (a # b # xs) = (if a \<noteq> [] \<and> a \<noteq> b then 1 else 0) + counted_changes (b # xs)"
| "counted_changes xs = 0"

definition prev_list :: "string option \<Rightarrow> string list" where
  "prev_list p = (case p of None \<Rightarrow> [] | Some x \<Rightarrow> [x])"

section \<open>Scenarios\<close>

text \<open>
  The scenario of the repository's tests: one bus (a second one for calls that name a
  bus outside the fleet), the route \<open>route_1\<close> over the nodes 0, 1, 2, one OD flow from 0
  to 1, and a street network with the edges 0-1 and 1-2 of weight 1.  The float fields
  hold values that binary floating point represents exactly.  The two routines are the
  mock routines of the tests, with dictionaries as the class declares them: one returns
  the assignment with the bus assigned, the other an assignment in its default state.
\<close>

definition bus1 :: Bus where
  "bus1 = \<lparr>bus_name = ''Bus1'', capacity = 60, per_mile_emissions = 1/2,
           procurement_price = 300000, annual_maintenance_cost = 25000,
           discomfort_level = 1, avg_speed = 12, uuid = ''u1''\<rparr>"

definition bus2 :: Bus where
  "bus2 = \<lparr>bus_name = ''Bus2'', capacity = 90, per_mile_emissions = 1/4,
           procurement_price = 750000, annual_maintenance_cost = 40000,
           discomfort_level = 1, avg_speed = 12, uuid = ''u2''\<rparr>"

definition route_1 :: Route where
  "route_1 = \<lparr>name = ''route_1'', nodes = [0, 1, 2]\<rparr>"

definition od_flow1 :: ODFlow where
  "od_flow1 = \<lparr>origin = 0, destination = 1, flow = 100\<rparr>"

definition fleet1 :: FleetComposition where
  "fleet1 = \<lparr>fleet = [bus1], operators = [\<lparr>annual_salary = BUS_OPERATOR_SALARY\<rparr>]\<rparr>"

definition unassigned1 :: FleetAssignment where
  "unassigned1 = \<lparr>composition = fleet1, assigned_buses = [(bus1, False)],
                  assigned_bus_routes = [(bus1, None)]\<rparr>"

definition assignment1 :: FleetAssignment where
  "assignment1 = \<lparr>composition = fleet1, assigned_buses = [(bus1, True)],
                  assigned_bus_routes = [(bus1, Some route_1)]\<rparr>"

definition street1 :: graph where
  "street1 = [(0, 1, \<lparr>weight = Some 1, etype = None, route_id = None, discomfort = None\<rparr>),
              (1, 2, \<lparr>weight = Some 1, etype = None, route_id = None, discomfort = None\<rparr>)]"

definition design1 :: ServiceNetworkDesign where
  "design1 = \<lparr>routes = [route_1], od_flows = [od_flow1], fleet_composition = fleet1,
              street_network_graph = street1, fleet_assignments = [],
              service_network_graphs = []\<rparr>"

definition mock_assign_all_buses_routine :: "ServiceNetworkDesign \<Rightarrow> FleetAssignment" where
  "mock_assign_all_buses_routine network =
     \<lparr>composition = fleet_composition network, assigned_buses = [(bus1, True)],
      assigned_bus_routes = [(bus1, Some route_1)]\<rparr>"

definition mock_unassigned_routine :: "ServiceNetworkDesign \<Rightarrow> FleetAssignment" where
  "mock_unassigned_routine network = new_FleetAssignment (fleet_composition network) None None"

text \<open>
  \<open>drop_failed_edge_list\<close> is the behaviour of \<open>nx.MultiDiGraph\<close> in networkx 3.6: a
  generator of edges that raises gives the graph without edges and no exception.
  \<open>bus_graph1\<close> is the graph with the two bus edges of \<open>bus1\<close> on \<open>route_1\<close>, of travel time
  1/12 each.  \<open>mock_other_fleet_routine\<close> returns an assignment, with every flag true, of a
  composition that is not the one of the design.  \<open>mismatched_assignment\<close> is an
  assignment built with explicit dictionaries whose one key, \<open>bus2\<close>, is not the bus of
  its composition.
\<close>

definition drop_failed_edge_list :: "error \<Rightarrow> error + multidigraph" where
  "drop_failed_edge_list e = Inr []"

definition bus_graph1 :: multidigraph where
  "bus_graph1 =
     [(0, 1, 0, \<lparr>weight = Some (1/12), etype = Some ''bus'', route_id = Some ''route_1'',
                  discomfort = Some 1\<rparr>),
      (1, 2, 0, \<lparr>weight = Some (1/12), etype = Some ''bus'', route_id = Some ''route_1'',
                  discomfort = Some 1\<rparr>)]"




text \<open>
  A second scenario, for the flow analysis: two buses, two one-hop routes 0-1 and 1-2
  with names \<open>a\<close> and \<open>b\<close>, street edges tagged \<open>distance\<close> of weight 3, one OD flow from
  0 to 2 of volume \<open>f\<close>.  \<open>two_hop_graph\<close> is the service graph of the assignment of one
  bus to each route, \<open>two_hop_design\<close> the design with that assignment and that graph
  recorded, and \<open>path_0_1_2\<close> what \<open>nx.shortest_path\<close> returns on that graph, whose only
  path leads from 0 over 1 to 2.
\<close>

definition fleet2 :: FleetComposition where
  "fleet2 = \<lparr>fleet = [bus1, bus2],
             operators = replicate 2 \<lparr>annual_salary = BUS_OPERATOR_SALARY\<rparr>\<rparr>"

definition street2 :: graph where
  "street2 = [(0, 1, \<lparr>weight = Some 3, etype = Some ''distance'', route_id = None, discomfort = None\<rparr>),
              (1, 2, \<lparr>weight = Some 3, etype = Some ''distance'', route_id = None, discomfort = None\<rparr>)]"

definition two_routes :: "string \<Rightarrow> string \<Rightarrow> Route list" where
  "two_routes a b = [\<lparr>name = a, nodes = [0, 1]\<rparr>, \<lparr>name = b, nodes = [1, 2]\<rparr>]"

definition two_route_assignment :: "string \<Rightarrow> string \<Rightarrow> FleetAssignment" where
  "two_route_assignment a b =
     \<lparr>composition = fleet2, assigned_buses = [(bus1, True), (bus2, True)],
      assigned_bus_routes = [(bus1, Some \<lparr>name = a, nodes = [0, 1]\<rparr>),
                             (bus2, Some \<lparr>name = b, nodes = [1, 2]\<rparr>)]\<rparr>"

definition two_hop_graph :: "string \<Rightarrow> string \<Rightarrow> multidigraph" where
  "two_hop_graph a b =
     [(0, 1, 0, \<lparr>weight = Some (1/4), etype = Some ''bus'', route_id = Some a, discomfort = Some 1\<rparr>),
      (1, 2, 0, \<lparr>weight = Some (1/4), etype = Some ''bus'', route_id = Some b, discomfort = Some 1\<rparr>)]"

definition two_hop_design :: "string \<Rightarrow> string \<Rightarrow> int \<Rightarrow> ServiceNetworkDesign" where
  "two_hop_design a b f =
     \<lparr>routes = two_routes a b, od_flows = [\<lparr>origin = 0, destination = 2, flow = f\<rparr>],
      fleet_composition = fleet2, street_network_graph = street2,
      fleet_assignments = [two_route_assignment a b],
      service_network_graphs = [two_hop_graph a b]\<rparr>"

definition path_0_1_2 :: "multidigraph \<Rightarrow> int \<Rightarrow> int \<Rightarrow> error + int list" where
  "path_0_1_2 g s t = (if s = 0 \<and> t = 2 then Inr [0, 1, 2] else Inl NetworkXNoPath)"

section \<open>The scenario is built by the program's own constructors\<close>

lemma fixture_route: "new_Route ''route_1'' [0, 1, 2] = Inr route_1"
  by (simp add: new_Route_def route_1_def)

lemma fixture_od_flow: "new_ODFlow 0 1 100 = Inr od_flow1"
  by (simp add: new_ODFlow_def od_flow1_def)

lemma fixture_fleet: "new_FleetComposition [bus1] None = Inr fleet1"
  by (simp add: new_FleetComposition_def fleet1_def)

lemma fixture_unassigned: "new_FleetAssignment fleet1 None None = unassigned1"
  by (simp add: new_FleetAssignment_def dict_from_keys_def fleet1_def unassigned1_def)

lemma fixture_assigned: "assign_bus_to_route bus1 route_1 unassigned1 = (None, assignment1)"
  by (simp add: assign_bus_to_route_def dict_contains_def unassigned1_def assignment1_def)

lemma fixture_design: "new_ServiceNetworkDesign [route_1] [od_flow1] fleet1 street1 = Inr design1"
  by (simp add: new_ServiceNetworkDesign_def route_1_def od_flow1_def fleet1_def street1_def
      design1_def has_path_def graph_nodes_def has_edge_def)

lemma bus2_neq_bus1: "bus2 \<noteq> bus1"
  by (simp add: bus1_def bus2_def)

section \<open>Assigning a bus to a route\<close>

lemma keys_dict_from_keys_aux:
  "fst ` set (foldl (\<lambda>d k. AList.update k v d) acc ks) = fst ` set acc \<union> set ks"
  by (induction ks arbitrary: acc) (auto simp: dom_update)

lemma keys_dict_from_keys: "fst ` set (dict_from_keys ks v) = set ks"
  by (simp add: dict_from_keys_def keys_dict_from_keys_aux)

text \<open>The invariant holds of an assignment in its default state, and every call keeps it.\<close>

lemma default_flags_cover_fleet: "flags_cover_fleet (new_FleetAssignment c None None)"
  by (simp add: flags_cover_fleet_def new_FleetAssignment_def keys_dict_from_keys)

lemma assign_keeps_flags_cover_fleet:
  assumes "flags_cover_fleet fa"
  shows "flags_cover_fleet (snd (assign_bus_to_route bus route fa))"
proof (cases "fst (assign_bus_to_route bus route fa)")
  case None
  then have upd: "snd (assign_bus_to_route bus route fa) =
      fa\<lparr>assigned_buses := AList.update bus True (assigned_buses fa),
         assigned_bus_routes := AList.update bus (Some route) (assigned_bus_routes fa)\<rparr>"
    and key: "map_of (assigned_buses fa) bus \<noteq> None"
    by (auto simp: assign_bus_to_route_def dict_contains_def split: if_splits)
  from key have "bus \<in> fst ` set (assigned_buses fa)"
    by (simp add: map_of_eq_None_iff)
  with assms show ?thesis
    by (auto simp: upd flags_cover_fleet_def dom_update)
next
  case (Some e)
  then have "snd (assign_bus_to_route bus route fa) = fa"
    by (auto simp: assign_bus_to_route_def split: if_splits)
  with assms show ?thesis by simp
qed







section \<open>The derived queries of a fleet assignment\<close>

text \<open>
  The queries iterate the two dictionaries, so what they test is a key.  A key is a
  bus: it is true as a condition, and it is never equal to a route.
\<close>

lemma iter_dict_not_route: "x \<in> set (iter_dict d) \<Longrightarrow> \<not> py_eq x (RouteObj r)"
  by (auto simp: iter_dict_def)

lemma iter_dict_truth: "x \<in> set (iter_dict d) \<Longrightarrow> truth x"
  by (auto simp: iter_dict_def)

lemma route_filter_empty:
  "[f x. (x, assigned, assigned_route) \<leftarrow> zip3 xs (iter_dict d1) (iter_dict d2),
      truth assigned \<and> py_eq assigned_route (RouteObj route)] = []"
  by (auto simp: zip3_def dest!: set_zip_rightD iter_dict_not_route)

text \<open>Hence every per-route query returns 0, for every assignment and every route.\<close>

lemma per_route_queries_zero:
  "capacity_for_route fa r = 0" "capital_cost_for_route fa r = 0"
  "operational_cost_for_route fa r = 0" "emissions_for_route fa r = 0"
  "num_buses_assigned_to_route fa r = 0"
  unfolding capacity_for_route_def capital_cost_for_route_def operational_cost_for_route_def
    emissions_for_route_def num_buses_assigned_to_route_def Let_def
  by (simp_all only: route_filter_empty sum_list.Nil add_0)

lemma truth_filter_all:
  "[f x. (x, assigned) \<leftarrow> zip xs (iter_dict d), truth assigned] = map f (take (length d) xs)"
proof -
  have "[f x. (x, assigned) \<leftarrow> zip xs ys, truth assigned] = map f (take (length ys) xs)"
    if "\<forall>y \<in> set ys. truth y" for ys
    using that by (induction xs ys rule: list_induct2') auto
  from this [of "iter_dict d"] show ?thesis
    by (simp add: iter_dict_truth) (simp add: iter_dict_def)
qed

text \<open>
  \<open>total_emissions\<close> adds the rates of the buses of the fleet, as many as the flag
  dictionary has keys, whatever the flags are; and \<open>buses_assigned\<close> is always true.
\<close>

lemma total_emissions_all_buses:
  "total_emissions fa =
     sum_list (map per_mile_emissions (take (length (assigned_buses fa)) (fleet (composition fa))))"
  by (simp only: total_emissions_def truth_filter_all)

lemma buses_assigned_always: "buses_assigned fa"
  by (simp add: buses_assigned_def list_all_iff iter_dict_truth)

text \<open>
  Claim C4.  The claim: each per-route query sums over exactly the buses whose flag is
  true and whose recorded route is the given route.  The code at the assignment of the
  tests, whose one bus (capacity 60, price 300000, salary 45028 and maintenance 25000,
  emission rate 1/2) is assigned to \<open>route_1\<close> by \<open>assign_bus_to_route\<close>: the five
  queries for \<open>route_1\<close> return 0, where the claim gives 60, 300000, 70028, 1/2 and 1.
\<close>

theorem per_route_queries_ignore_assignment:
  "assign_bus_to_route bus1 route_1 (new_FleetAssignment fleet1 None None) = (None, assignment1)
   \<and> map_of (assigned_buses assignment1) bus1 = Some True
   \<and> map_of (assigned_bus_routes assignment1) bus1 = Some (Some route_1)
   \<and> capacity_for_route assignment1 route_1 = 0 \<and> capacity bus1 = 60
   \<and> capital_cost_for_route assignment1 route_1 = 0 \<and> procurement_price bus1 = 300000
   \<and> operational_cost_for_route assignment1 route_1 = 0
   \<and> annual_salary (hd (operators fleet1)) + annual_maintenance_cost bus1 = 70028
   \<and> emissions_for_route assignment1 route_1 = 0 \<and> per_mile_emissions bus1 = 1/2
   \<and> num_buses_assigned_to_route assignment1 route_1 = 0"
  by (simp add: fixture_unassigned fixture_assigned)
     (simp add: assignment1_def fleet1_def bus1_def route_1_def capacity_for_route_def
        capital_cost_for_route_def operational_cost_for_route_def emissions_for_route_def
        num_buses_assigned_to_route_def zip3_def iter_dict_def BUS_OPERATOR_SALARY_def)

text \<open>
  Claim C7.  The claim: \<open>total_emissions\<close> is the sum of the emission rates of exactly the
  buses whose flag is true.  The code at an assignment in its default state, where the
  flag of the one bus is false: \<open>total_emissions\<close> is the rate 1/2 of that bus, where the
  claim gives 0.
\<close>

theorem total_emissions_counts_unassigned_bus:
  "new_FleetAssignment fleet1 None None = unassigned1
   \<and> map_of (assigned_buses unassigned1) bus1 = Some False
   \<and> total_emissions unassigned1 = 1/2"
  by (simp add: fixture_unassigned)
     (simp add: unassigned1_def fleet1_def bus1_def total_emissions_def iter_dict_def)

section \<open>Assigning buses to a design\<close>

text \<open>
  A tuple of \<open>edges(data=True)\<close> has three components and the generator of
  \<open>_get_empty_service_network_graph\<close> unpacks it into four names: the first edge of the
  street network raises \<open>ValueError\<close> in the generator, and the base graph is whatever
  the constructor of the graph makes of that, never the street edges.  A design that the
  constructor accepts has an OD flow whose end points are nodes of the street network,
  so its street network has an edge.
\<close>

lemma get_empty_on_street_edge:
  "street_network_graph d \<noteq> [] \<Longrightarrow>
   get_empty_service_network_graph on_edge_error d = on_edge_error ValueError"
  by (cases "street_network_graph d")
     (auto simp: get_empty_service_network_graph_def edges_data_def unpack4_def)

lemma first_error_head: "first_error (c # cs) = Inr x \<Longrightarrow> \<exists>b. c = Inr b"
  by (cases c) simp_all

lemma accepted_design_has_edge:
  assumes "new_ServiceNetworkDesign rs ods fc g = Inr d"
  shows "street_network_graph d \<noteq> []"
proof -
  from assms have ne: "ods \<noteq> []"
    and fe: "\<exists>x. first_error [has_path g (origin od) (destination od). od \<leftarrow> ods] = Inr x"
    and d: "street_network_graph d = g"
    by (auto simp: new_ServiceNetworkDesign_def split: if_splits sum.splits)
  from ne obtain od ods' where "ods = od # ods'"
    by (cases ods) auto
  with fe have "\<exists>b. has_path g (origin od) (destination od) = Inr b"
    by (auto dest: first_error_head)
  then have "g \<noteq> []"
    by (auto simp: has_path_def graph_nodes_def split: if_splits)
  with d show ?thesis by simp
qed

lemma accepted_design_base_graph:
  assumes "new_ServiceNetworkDesign rs ods fc g = Inr d"
  shows "get_empty_service_network_graph on_edge_error d = on_edge_error ValueError"
  by (rule get_empty_on_street_edge [OF accepted_design_has_edge [OF assms]])

text \<open>
  \<open>_update_service_network_graphs\<close> changes the graph history only, and only when it
  returns; \<open>assign_buses\<close> has appended the assignment before, whatever the flags of the
  assignment are and whatever the constructor of the graph does.
\<close>

lemma update_outcome:
  "(\<exists>e. update_service_network_graphs on_edge_error self = (Some e, self))
   \<or> (\<exists>g0 g. get_empty_service_network_graph on_edge_error self = Inr g0
          \<and> add_routes (street_network_graph self) (last (fleet_assignments self))
               (fleet (fleet_composition self)) (routes self) g0 = Inr g
          \<and> update_service_network_graphs on_edge_error self
               = (None, self\<lparr>service_network_graphs := service_network_graphs self @ [g]\<rparr>))"
  by (auto simp: update_service_network_graphs_def split: sum.splits if_splits)

lemma assign_buses_unfold:
  "assign_buses on_edge_error routine self
     = update_service_network_graphs on_edge_error
         (self\<lparr>fleet_assignments := fleet_assignments self @ [routine self]\<rparr>)"
  by (simp add: assign_buses_def buses_assigned_always)

lemma assign_buses_always_appends:
  "fleet_assignments (snd (assign_buses on_edge_error routine self))
     = fleet_assignments self @ [routine self]"
  using update_outcome
          [of on_edge_error "self\<lparr>fleet_assignments := fleet_assignments self @ [routine self]\<rparr>"]
  by (auto simp: assign_buses_unfold)

lemma street1_nonempty: "street_network_graph design1 \<noteq> []"
  by (simp add: design1_def street1_def)

lemma routine_all_design1: "mock_assign_all_buses_routine design1 = assignment1"
  by (simp add: mock_assign_all_buses_routine_def design1_def assignment1_def)

lemma routine_unassigned_design1: "mock_unassigned_routine design1 = unassigned1"
  by (simp add: mock_unassigned_routine_def design1_def fixture_unassigned)

lemma design1_assignments: "fleet_assignments design1 = []"
  by (simp add: design1_def)

lemma design1_fields:
  "street_network_graph design1 = street1" "fleet (fleet_composition design1) = [bus1]"
  "routes design1 = [route_1]" "service_network_graphs design1 = []"
  by (simp_all add: design1_def fleet1_def)

lemma design1_base_graph:
  "get_empty_service_network_graph drop_failed_edge_list (design1\<lparr>fleet_assignments := xs\<rparr>) = Inr []"
  by (simp add: get_empty_on_street_edge street1_nonempty drop_failed_edge_list_def)

lemma design1_bus_edges:
  "add_routes street1 assignment1 [bus1] [route_1] [] = Inr bus_graph1"
  by (simp add: street1_def assignment1_def route_1_def bus_graph1_def dict_get_def
      graph_edge_def add_edge_def new_edge_key_def edge_keys_def bus1_def)

lemma design1_no_bus_edges:
  "add_routes street1 unassigned1 [bus1] [route_1] [] = Inr []"
  by (simp add: unassigned1_def dict_get_def)


lemma assign_all_design1:
  "assign_buses drop_failed_edge_list mock_assign_all_buses_routine
     (design1\<lparr>service_network_graphs := gs\<rparr>)
   = (None, design1\<lparr>fleet_assignments := [assignment1], service_network_graphs := gs @ [bus_graph1]\<rparr>)"
proof -
  have r: "mock_assign_all_buses_routine (design1\<lparr>service_network_graphs := gs\<rparr>) = assignment1"
    by (simp add: mock_assign_all_buses_routine_def design1_def assignment1_def)
  have e: "get_empty_service_network_graph drop_failed_edge_list
             (design1\<lparr>service_network_graphs := gs, fleet_assignments := [assignment1]\<rparr>) = Inr []"
    by (simp add: get_empty_on_street_edge street1_nonempty drop_failed_edge_list_def)
  show ?thesis
    by (simp add: assign_buses_unfold r design1_assignments update_service_network_graphs_def e)
       (simp add: design1_fields design1_bus_edges del: add_routes.simps)
qed

text \<open>
  Claim C1, as amended.  A call of \<open>assign_buses\<close> that returns has appended exactly one
  assignment, the one the routine returned, to the assignment history, and exactly one
  graph, derived from that assignment, to the graph history, and changed nothing else;
  if the two histories had equal length before the call, they have equal length
  afterwards and the new graph is at the index of the new assignment.
\<close>

theorem assign_buses_appends_one_of_each:
  "fst (assign_buses on_edge_error routine self) = None \<longrightarrow>
     (\<exists>g0 g. get_empty_service_network_graph on_edge_error self = Inr g0
        \<and> add_routes (street_network_graph self) (routine self)
             (fleet (fleet_composition self)) (routes self) g0 = Inr g
        \<and> snd (assign_buses on_edge_error routine self)
             = self\<lparr>fleet_assignments := fleet_assignments self @ [routine self],
                    service_network_graphs := service_network_graphs self @ [g]\<rparr>
        \<and> (length (fleet_assignments self) = length (service_network_graphs self) \<longrightarrow>
              length (fleet_assignments (snd (assign_buses on_edge_error routine self)))
                = length (service_network_graphs (snd (assign_buses on_edge_error routine self)))
            \<and> fleet_assignments (snd (assign_buses on_edge_error routine self))
                  ! length (fleet_assignments self) = routine self
            \<and> service_network_graphs (snd (assign_buses on_edge_error routine self))
                  ! length (fleet_assignments self) = g))"
proof
  let ?s = "self\<lparr>fleet_assignments := fleet_assignments self @ [routine self]\<rparr>"
  assume "fst (assign_buses on_edge_error routine self) = None"
  then have ok: "fst (update_service_network_graphs on_edge_error ?s) = None"
    by (simp add: assign_buses_unfold)
  have base: "get_empty_service_network_graph on_edge_error ?s
                = get_empty_service_network_graph on_edge_error self"
    by (simp add: get_empty_service_network_graph_def)
  from update_outcome [of on_edge_error ?s] ok
  obtain g0 g where g0: "get_empty_service_network_graph on_edge_error self = Inr g0"
    and g: "add_routes (street_network_graph self) (routine self)
              (fleet (fleet_composition self)) (routes self) g0 = Inr g"
    and u: "update_service_network_graphs on_edge_error ?s
              = (None, ?s\<lparr>service_network_graphs := service_network_graphs ?s @ [g]\<rparr>)"
    by (auto simp: base)
  have r: "snd (assign_buses on_edge_error routine self)
             = self\<lparr>fleet_assignments := fleet_assignments self @ [routine self],
                    service_network_graphs := service_network_graphs self @ [g]\<rparr>"
    by (simp add: assign_buses_unfold u)
  have "get_empty_service_network_graph on_edge_error self = Inr g0
        \<and> add_routes (street_network_graph self) (routine self)
             (fleet (fleet_composition self)) (routes self) g0 = Inr g
        \<and> snd (assign_buses on_edge_error routine self)
             = self\<lparr>fleet_assignments := fleet_assignments self @ [routine self],
                    service_network_graphs := service_network_graphs self @ [g]\<rparr>
        \<and> (length (fleet_assignments self) = length (service_network_graphs self) \<longrightarrow>
              length (fleet_assignments (snd (assign_buses on_edge_error routine self)))
                = length (service_network_graphs (snd (assign_buses on_edge_error routine self)))
            \<and> fleet_assignments (snd (assign_buses on_edge_error routine self))
                  ! length (fleet_assignments self) = routine self
            \<and> service_network_graphs (snd (assign_buses on_edge_error routine self))
                  ! length (fleet_assignments self) = g)"
    using g0 g by (auto simp: r nth_append)
  then show "\<exists>g0 g. get_empty_service_network_graph on_edge_error self = Inr g0
        \<and> add_routes (street_network_graph self) (routine self)
             (fleet (fleet_composition self)) (routes self) g0 = Inr g
        \<and> snd (assign_buses on_edge_error routine self)
             = self\<lparr>fleet_assignments := fleet_assignments self @ [routine self],
                    service_network_graphs := service_network_graphs self @ [g]\<rparr>
        \<and> (length (fleet_assignments self) = length (service_network_graphs self) \<longrightarrow>
              length (fleet_assignments (snd (assign_buses on_edge_error routine self)))
                = length (service_network_graphs (snd (assign_buses on_edge_error routine self)))
            \<and> fleet_assignments (snd (assign_buses on_edge_error routine self))
                  ! length (fleet_assignments self) = routine self
            \<and> service_network_graphs (snd (assign_buses on_edge_error routine self))
                  ! length (fleet_assignments self) = g)"
    by blast
qed

theorem assign_buses_appends_one_of_each_witness:
  "fst (assign_buses drop_failed_edge_list mock_assign_all_buses_routine design1) = None
   \<and> length (fleet_assignments design1) = length (service_network_graphs design1)
   \<and> snd (assign_buses drop_failed_edge_list mock_assign_all_buses_routine design1)
       = design1\<lparr>fleet_assignments := [assignment1], service_network_graphs := [bus_graph1]\<rparr>"
proof -
  have a: "assign_buses drop_failed_edge_list mock_assign_all_buses_routine design1
       = (None, design1\<lparr>fleet_assignments := [assignment1], service_network_graphs := [bus_graph1]\<rparr>)"
    using assign_all_design1 [of "[]"] by (simp add: design1_def)
  then have ok: "fst (assign_buses drop_failed_edge_list mock_assign_all_buses_routine design1) = None"
    by simp
  have len: "length (fleet_assignments design1) = length (service_network_graphs design1)"
    by (simp add: design1_def)
  from assign_buses_appends_one_of_each
         [of drop_failed_edge_list mock_assign_all_buses_routine design1] ok len a
  show ?thesis by simp
qed

text \<open>
  The claim as stated fails on a design whose histories differ in length, as
  \<open>remove_all_assignments\<close> leaves them: after a first call of \<open>assign_buses\<close> and a removal
  of all assignments, a second call returns with one assignment and two graphs, the new
  assignment at index 0 and the new graph at index 1.
\<close>

theorem assign_buses_after_removal_misaligned:
  "assign_buses drop_failed_edge_list mock_assign_all_buses_routine design1
     = (None, design1\<lparr>fleet_assignments := [assignment1], service_network_graphs := [bus_graph1]\<rparr>)
   \<and> remove_all_assignments
       (design1\<lparr>fleet_assignments := [assignment1], service_network_graphs := [bus_graph1]\<rparr>)
     = (None, design1\<lparr>service_network_graphs := [bus_graph1]\<rparr>)
   \<and> assign_buses drop_failed_edge_list mock_assign_all_buses_routine
       (design1\<lparr>service_network_graphs := [bus_graph1]\<rparr>)
     = (None, design1\<lparr>fleet_assignments := [assignment1],
                     service_network_graphs := [bus_graph1, bus_graph1]\<rparr>)
   \<and> length [assignment1] \<noteq> length [bus_graph1, bus_graph1]"
  using assign_all_design1 [of "[]"] assign_all_design1 [of "[bus_graph1]"]
  by (simp add: remove_all_assignments_def design1_def)

text \<open>
  Claim C2.  The claim: the derived graph holds the street edges not tagged \<open>distance\<close>,
  unchanged, and one edge of type \<open>bus\<close> per route, bus assigned to it and consecutive
  node pair.  The code at the design of the tests with the assignment recorded, where
  neither street edge is tagged \<open>distance\<close>: the edge generator raises on the first
  tuple, the base graph has no edge, and the derived graph holds the two bus edges and
  neither of the two street edges.
\<close>

theorem service_graph_without_street_edges:
  "new_ServiceNetworkDesign [route_1] [od_flow1] fleet1 street1 = Inr design1
   \<and> filter (\<lambda>e. etype (snd (snd e)) \<noteq> Some ''distance'') (street_network_graph design1) = street1
   \<and> length street1 = 2
   \<and> from_edge_tuples (edges_data (street_network_graph design1)) [] = Inl ValueError
   \<and> get_empty_service_network_graph drop_failed_edge_list design1 = Inr []
   \<and> update_service_network_graphs drop_failed_edge_list
        (design1\<lparr>fleet_assignments := [assignment1]\<rparr>)
       = (None, design1\<lparr>fleet_assignments := [assignment1], service_network_graphs := [bus_graph1]\<rparr>)
   \<and> filter (\<lambda>e. etype (snd (snd (snd e))) \<noteq> Some ''bus'') bus_graph1 = []"
proof -
  have "update_service_network_graphs drop_failed_edge_list
        (design1\<lparr>fleet_assignments := [assignment1]\<rparr>)
       = (None, design1\<lparr>fleet_assignments := [assignment1], service_network_graphs := [bus_graph1]\<rparr>)"
    by (simp add: update_service_network_graphs_def design1_base_graph)
       (simp add: design1_fields design1_bus_edges del: add_routes.simps)
  moreover have "get_empty_service_network_graph drop_failed_edge_list design1 = Inr []"
    using design1_base_graph [of "[]"] by (simp add: design1_def)
  ultimately show ?thesis
    by (simp add: fixture_design)
       (simp add: design1_def street1_def bus_graph1_def edges_data_def unpack4_def)
qed

text \<open>
  Claim C3.  The claim: with a routine whose assignment has a bus that is not assigned,
  \<open>assign_buses\<close> raises and the assignment history keeps its length.  The code at the
  design of the tests and the routine that returns an assignment in its default state,
  where the flag of the one bus is false: \<open>buses_assigned\<close> is true of that assignment,
  the call returns, and the assignment history has length 1 after the call and 0 before.
\<close>

theorem assign_buses_incomplete_assignment_appends:
  "new_ServiceNetworkDesign [route_1] [od_flow1] fleet1 street1 = Inr design1
   \<and> mock_unassigned_routine design1 = unassigned1
   \<and> map_of (assigned_buses unassigned1) bus1 = Some False
   \<and> buses_assigned unassigned1
   \<and> assign_buses drop_failed_edge_list mock_unassigned_routine design1
       = (None, design1\<lparr>fleet_assignments := [unassigned1], service_network_graphs := [[]]\<rparr>)
   \<and> length (fleet_assignments design1) = 0
   \<and> length (fleet_assignments
        (design1\<lparr>fleet_assignments := [unassigned1], service_network_graphs := [[]]\<rparr>)) = 1"
proof -
  have "assign_buses drop_failed_edge_list mock_unassigned_routine design1
       = (None, design1\<lparr>fleet_assignments := [unassigned1], service_network_graphs := [[]]\<rparr>)"
    by (simp add: assign_buses_unfold routine_unassigned_design1 design1_assignments
          update_service_network_graphs_def design1_base_graph)
       (simp add: design1_fields design1_no_bus_edges del: add_routes.simps)
  then show ?thesis
    by (simp add: fixture_design routine_unassigned_design1 design1_assignments
          buses_assigned_always)
       (simp add: unassigned1_def)
qed





section \<open>Removing assignments\<close>

lemma list_remove_length:
  "list_remove xs x = Inr ys \<Longrightarrow> length xs = Suc (length ys)"
  by (induction xs arbitrary: ys) (auto split: if_splits sum.splits)

lemma two_route_assignment_eq: "fa_eq (two_route_assignment a b) (two_route_assignment a b)"
  using bus2_neq_bus1 by (simp add: fa_eq_def dict_eq_def two_route_assignment_def)

text \<open>
  Claim C9.  \<open>remove_assignment\<close> and \<open>remove_all_assignments\<close> leave the service-graph
  history as it is, and every other field of the design but the assignment history:
  \<open>remove_assignment\<close> drops one entry of the assignment history when it returns and
  none when it raises, \<open>remove_all_assignments\<close> empties it.
\<close>

theorem remove_keeps_service_network_graphs:
  "service_network_graphs (snd (remove_assignment assignment self)) = service_network_graphs self
   \<and> snd (remove_assignment assignment self)
       = self\<lparr>fleet_assignments := fleet_assignments (snd (remove_assignment assignment self))\<rparr>
   \<and> length (fleet_assignments (snd (remove_assignment assignment self)))
       = (if fst (remove_assignment assignment self) = None
          then length (fleet_assignments self) - 1 else length (fleet_assignments self))
   \<and> service_network_graphs (snd (remove_all_assignments self)) = service_network_graphs self
   \<and> snd (remove_all_assignments self) = self\<lparr>fleet_assignments := []\<rparr>"
  by (auto simp: remove_assignment_def remove_all_assignments_def
      split: sum.splits dest: list_remove_length)

theorem remove_keeps_service_network_graphs_witness:
  "fst (remove_assignment (two_route_assignment ''route_1'' ''route_2'')
          (two_hop_design ''route_1'' ''route_2'' 100)) = None
   \<and> fleet_assignments (snd (remove_assignment (two_route_assignment ''route_1'' ''route_2'')
          (two_hop_design ''route_1'' ''route_2'' 100))) = []
   \<and> service_network_graphs (snd (remove_assignment (two_route_assignment ''route_1'' ''route_2'')
          (two_hop_design ''route_1'' ''route_2'' 100))) = [two_hop_graph ''route_1'' ''route_2'']
   \<and> service_network_graphs (snd (remove_all_assignments (two_hop_design ''route_1'' ''route_2'' 100)))
       = [two_hop_graph ''route_1'' ''route_2'']"
proof -
  let ?a = "two_route_assignment ''route_1'' ''route_2''"
  let ?d = "two_hop_design ''route_1'' ''route_2'' 100"
  have g: "service_network_graphs ?d = [two_hop_graph ''route_1'' ''route_2'']"
    by (simp add: two_hop_design_def)
  have r: "remove_assignment ?a ?d = (None, ?d\<lparr>fleet_assignments := []\<rparr>)"
    by (simp add: remove_assignment_def two_hop_design_def two_route_assignment_eq)
  from remove_keeps_service_network_graphs [of ?a ?d] g r show ?thesis
    by simp
qed

section \<open>Flow analysis\<close>

lemma counted_changes_nonempty:
  "[] \<notin> set xs \<Longrightarrow> counted_changes xs = route_changes xs"
  by (induction xs rule: route_changes.induct) auto

lemma walk_edge_ok:
  assumes "edge_ok g uv"
  shows "\<exists>st'. walk_edge g uv st = Inr st'"
  using assms
  by (auto simp: edge_ok_def walk_edge_def Let_def split: sum.splits option.splits if_splits)

lemma walk_edge_effect:
  assumes "walk_edge g uv st = Inr st'"
  shows "total_time st' = total_time st + sum_list (List.map_filter weight (traversed g [uv]))"
    and "unique_routes st' = unique_routes st \<union> set (route_names (traversed g [uv]))"
    and "discomfort_sum st' = discomfort_sum st
           + sum_list (List.map_filter discomfort (bus_edges (traversed g [uv])))"
    and "segments st' = segments st + int (length (bus_edges (traversed g [uv])))"
    and "prev_list (prev_route st') =
           (if route_names (traversed g [uv]) = [] then prev_list (prev_route st)
            else [last (route_names (traversed g [uv]))])"
    and "transfer_count st' = transfer_count st
           + counted_changes (prev_list (prev_route st) @ route_names (traversed g [uv]))"
    and "length (traversed g [uv]) = 1"
    and "length (route_names (traversed g [uv])) = length (bus_edges (traversed g [uv]))"
  using assms
  by (auto simp: walk_edge_def traversed_def bus_edges_def route_names_def prev_list_def
        str_truth_def map_filter_simps Let_def
      split: sum.splits option.splits if_splits)


lemma traversed_Cons: "traversed g (uv # uvs) = traversed g [uv] @ traversed g uvs"
  by (simp add: traversed_def)

lemma bus_edges_append: "bus_edges (xs @ ys) = bus_edges xs @ bus_edges ys"
  by (simp add: bus_edges_def)

lemma map_filter_app: "List.map_filter f (xs @ ys) = List.map_filter f xs @ List.map_filter f ys"
  by (simp add: List.map_filter_def)

lemma route_names_append: "route_names (xs @ ys) = route_names xs @ route_names ys"
  by (simp add: route_names_def bus_edges_append map_filter_app)

lemma counted_split:
  assumes "length P \<le> 1" and "length N1 \<le> 1"
  shows "counted_changes (P @ N1 @ N)
           = counted_changes (P @ N1) + counted_changes ((if N1 = [] then P else [last N1]) @ N)"
proof -
  have P: "P = [] \<or> (\<exists>p. P = [p])"
    using assms(1) by (cases P) simp_all
  have N: "N1 = [] \<or> (\<exists>n. N1 = [n])"
    using assms(2) by (cases N1) simp_all
  from P N show ?thesis
    by (elim disjE exE) simp_all
qed

lemma prev_list_short: "length (prev_list p) \<le> 1"
  by (simp add: prev_list_def split: option.splits)

lemma walk_effect:
  assumes "walk g uvs st = Inr st'"
  shows "total_time st' = total_time st + sum_list (List.map_filter weight (traversed g uvs))
       \<and> unique_routes st' = unique_routes st \<union> set (route_names (traversed g uvs))
       \<and> discomfort_sum st' = discomfort_sum st
             + sum_list (List.map_filter discomfort (bus_edges (traversed g uvs)))
       \<and> segments st' = segments st + int (length (bus_edges (traversed g uvs)))
       \<and> prev_list (prev_route st') =
             (if route_names (traversed g uvs) = [] then prev_list (prev_route st)
              else [last (route_names (traversed g uvs))])
       \<and> transfer_count st' = transfer_count st
             + counted_changes (prev_list (prev_route st) @ route_names (traversed g uvs))
       \<and> length (traversed g uvs) = length uvs"
  using assms
proof (induction uvs arbitrary: st)
  case Nil
  have "counted_changes (prev_list (prev_route st)) = 0"
    by (simp add: prev_list_def split: option.splits)
  with Nil show ?case
    by (simp add: traversed_def route_names_def bus_edges_def List.map_filter_def)
next
  case (Cons uv uvs)
  from Cons.prems obtain st1 where e: "walk_edge g uv st = Inr st1" and w: "walk g uvs st1 = Inr st'"
    by (auto split: sum.splits)
  note E = walk_edge_effect [OF e]
  note W = Cons.IH [OF w]
  let ?N1 = "route_names (traversed g [uv])"
  let ?N = "route_names (traversed g uvs)"
  have "length (bus_edges (traversed g [uv])) \<le> length (traversed g [uv])"
    unfolding bus_edges_def by (rule length_filter_le)
  then have short: "length ?N1 \<le> 1"
    using E(7,8) by simp
  have tr: "counted_changes (prev_list (prev_route st) @ ?N1 @ ?N)
          = counted_changes (prev_list (prev_route st) @ ?N1)
            + counted_changes (prev_list (prev_route st1) @ ?N)"
    using counted_split [OF prev_list_short short] E(5) by simp
  have last_eq: "(if ?N1 @ ?N = [] then prev_list (prev_route st) else [last (?N1 @ ?N)])
               = (if ?N = [] then prev_list (prev_route st1) else [last ?N])"
    using E(5) by simp
  have T: "traversed g (uv # uvs) = traversed g [uv] @ traversed g uvs"
    by (rule traversed_Cons)
  have 1: "total_time st' = total_time st + sum_list (List.map_filter weight (traversed g (uv # uvs)))"
    using W E(1) by (simp add: T map_filter_app)
  have 2: "unique_routes st' = unique_routes st \<union> set (route_names (traversed g (uv # uvs)))"
    using W E(2) by (simp add: T route_names_append Un_assoc)
  have 3: "discomfort_sum st' = discomfort_sum st
             + sum_list (List.map_filter discomfort (bus_edges (traversed g (uv # uvs))))"
    using W E(3) by (simp add: T bus_edges_append map_filter_app)
  have 4: "segments st' = segments st + int (length (bus_edges (traversed g (uv # uvs))))"
    using W E(4) by (simp add: T bus_edges_append)
  have 5: "prev_list (prev_route st') =
             (if route_names (traversed g (uv # uvs)) = [] then prev_list (prev_route st)
              else [last (route_names (traversed g (uv # uvs)))])"
    using W last_eq by (simp only: T route_names_append)
  have 6: "transfer_count st' = transfer_count st
             + counted_changes (prev_list (prev_route st) @ route_names (traversed g (uv # uvs)))"
    using W E(6) tr by (simp only: T route_names_append)
  have 7: "length (traversed g (uv # uvs)) = length (uv # uvs)"
    using W E(7) by (simp add: T)
  show ?case by (intro conjI 1 2 3 4 5 6 7)
qed


lemma two_hop_design_accepted:
  "a \<noteq> b \<Longrightarrow> new_ServiceNetworkDesign (two_routes a b) [\<lparr>origin = 0, destination = 2, flow = f\<rparr>] fleet2 street2
     = Inr ((two_hop_design a b f)\<lparr>fleet_assignments := [], service_network_graphs := []\<rparr>)"
  by (simp add: new_ServiceNetworkDesign_def two_routes_def fleet2_def street2_def
      two_hop_design_def has_path_def graph_nodes_def has_edge_def)

lemma two_hop_graph_built:
  "add_routes street2 (two_route_assignment a b) (fleet fleet2) (two_routes a b) [] = Inr (two_hop_graph a b)"
  using bus2_neq_bus1
  by (simp add: two_routes_def two_route_assignment_def fleet2_def street2_def two_hop_graph_def
      dict_get_def graph_edge_def add_edge_def new_edge_key_def edge_keys_def bus1_def bus2_def)

lemma walk_ok:
  "list_all (edge_ok g) uvs \<Longrightarrow> \<exists>st'. walk g uvs st = Inr st'"
proof (induction uvs arbitrary: st)
  case Nil
  show ?case by simp
next
  case (Cons uv uvs)
  then have "edge_ok g uv" and rest: "list_all (edge_ok g) uvs"
    by simp_all
  then obtain st1 where "walk_edge g uv st = Inr st1"
    using walk_edge_ok by blast
  moreover from Cons.IH [OF rest] obtain st' where "walk g uvs st1 = Inr st'"
    by blast
  ultimately show ?case by simp
qed

lemma analyze_path_record:
  assumes ok: "list_all (edge_ok g) (zip path (tl path))"
  shows "\<exists>r. analyze_path g path = Inr r
     \<and> length (traversed g (zip path (tl path))) = length path - 1
     \<and> number_of_hops r = int (length path - 1)
     \<and> average_travel_time r =
         (if length path - 1 = 0 then 0
          else sum_list (List.map_filter weight (traversed g (zip path (tl path))))
               / real (length path - 1))
     \<and> average_discomfort r =
         (if bus_edges (traversed g (zip path (tl path))) = [] then 0
          else real_of_int (sum_list (List.map_filter discomfort
                                        (bus_edges (traversed g (zip path (tl path))))))
               / real (length (bus_edges (traversed g (zip path (tl path))))))
     \<and> number_of_services r = int (card (set (route_names (traversed g (zip path (tl path))))))
     \<and> transfers r = counted_changes (route_names (traversed g (zip path (tl path))))"
proof -
  let ?st0 = "\<lparr>total_time = 0, unique_routes = {}, transfer_count = 0,
               discomfort_sum = 0, prev_route = None, segments = 0\<rparr>"
  from walk_ok [OF ok] obtain st where w: "walk g (zip path (tl path)) ?st0 = Inr st"
    by blast
  note W = walk_effect [OF w]
  have r: "analyze_path g path =
      Inr \<lparr>average_travel_time =
              (if int (length path - 1) > 0 then total_time st / real_of_int (int (length path - 1)) else 0),
           number_of_hops = int (length path - 1),
           number_of_services = int (card (unique_routes st)),
           transfers = transfer_count st,
           average_discomfort =
             (if segments st > 0
              then real_of_int (discomfort_sum st) / real_of_int (segments st) else 0)\<rparr>"
    using w by (simp add: analyze_path_def Let_def)
  have seg: "segments st = int (length (bus_edges (traversed g (zip path (tl path)))))"
    using W by simp
  show ?thesis
    unfolding r using W seg
    by (simp add: prev_list_def)
qed

lemma two_hop_index:
  "list_index (fleet_assignments (two_hop_design a b f)) (two_route_assignment a b) = Inr 0"
  using bus2_neq_bus1
  by (simp add: two_hop_design_def fa_eq_def dict_eq_def two_route_assignment_def)

lemma two_hop_graph_nth: "service_network_graphs (two_hop_design a b f) ! 0 = two_hop_graph a b"
  by (simp add: two_hop_design_def)

lemma two_hop_ok: "list_all (edge_ok (two_hop_graph a b)) (path_edges [0, 1, 2])"
  by (simp add: path_edges_def edge_ok_def two_hop_graph_def multi_edge0_def)

lemma two_hop_names:
  "route_names (traversed (two_hop_graph a b) (path_edges [0, 1, 2])) = [a, b]"
  by (simp add: path_edges_def traversed_def two_hop_graph_def multi_edge0_def route_names_def
      bus_edges_def map_filter_simps)

lemma two_hop_analysis:
  "analyze_flow_for_assignment path_0_1_2 (two_hop_design a b f) (two_route_assignment a b)
     \<lparr>origin = 0, destination = 2, flow = f\<rparr>
   = Inr \<lparr>average_travel_time = 1/4, number_of_hops = 2,
          number_of_services = (if a = b then 1 else 2),
          transfers = (if a \<noteq> [] \<and> a \<noteq> b then 1 else 0), average_discomfort = 1\<rparr>"
  by (simp add: analyze_flow_for_assignment_def two_hop_index)
     (auto simp add: two_hop_design_def path_0_1_2_def analyze_path_def two_hop_graph_def
        walk_edge_def multi_edge0_def str_truth_def Let_def card_insert_if)

text \<open>
  What the analysis returns.  When the assignment is recorded at an index that has a
  graph, the shortest-path routine returns a path, and the walk can read every traversed
  edge, the analysis returns a record with the hop count, the average travel time and
  the average discomfort of the traversed edges, the number of distinct route names, and
  as transfers the bus edges whose route name differs from the route name of the bus
  edge before, where that name is not the empty string.
\<close>

lemma analyze_flow_record:
  assumes idx: "list_index (fleet_assignments self) assignment = Inr i"
    and len: "i < length (service_network_graphs self)"
    and sp: "shortest_path (service_network_graphs self ! i) (origin od_flow) (destination od_flow)
               = Inr path"
    and ok: "list_all (edge_ok (service_network_graphs self ! i)) (path_edges path)"
  shows "\<exists>r. analyze_flow_for_assignment shortest_path self assignment od_flow = Inr r
     \<and> length (traversed (service_network_graphs self ! i) (path_edges path)) = length path - 1
     \<and> number_of_hops r = int (length path - 1)
     \<and> average_travel_time r =
         (if length path - 1 = 0 then 0
          else sum_list (List.map_filter weight
                           (traversed (service_network_graphs self ! i) (path_edges path)))
               / real (length path - 1))
     \<and> average_discomfort r =
         (if bus_edges (traversed (service_network_graphs self ! i) (path_edges path)) = [] then 0
          else real_of_int (sum_list (List.map_filter discomfort
                  (bus_edges (traversed (service_network_graphs self ! i) (path_edges path)))))
               / real (length (bus_edges (traversed (service_network_graphs self ! i)
                                            (path_edges path)))))
     \<and> number_of_services r =
         int (card (set (route_names (traversed (service_network_graphs self ! i) (path_edges path)))))
     \<and> transfers r =
         counted_changes (route_names (traversed (service_network_graphs self ! i) (path_edges path)))
     \<and> ([] \<notin> set (route_names (traversed (service_network_graphs self ! i) (path_edges path)))
          \<longrightarrow> transfers r =
            route_changes (route_names (traversed (service_network_graphs self ! i) (path_edges path))))"
proof -
  have eq: "analyze_flow_for_assignment shortest_path self assignment od_flow
          = analyze_path (service_network_graphs self ! i) path"
    using idx len sp by (simp add: analyze_flow_for_assignment_def Let_def)
  from analyze_path_record [OF ok [unfolded path_edges_def]]
  obtain r where r: "analyze_path (service_network_graphs self ! i) path = Inr r"
    and props: "length (traversed (service_network_graphs self ! i) (path_edges path)) = length path - 1"
      "number_of_hops r = int (length path - 1)"
      "average_travel_time r =
         (if length path - 1 = 0 then 0
          else sum_list (List.map_filter weight
                           (traversed (service_network_graphs self ! i) (path_edges path)))
               / real (length path - 1))"
      "average_discomfort r =
         (if bus_edges (traversed (service_network_graphs self ! i) (path_edges path)) = [] then 0
          else real_of_int (sum_list (List.map_filter discomfort
                  (bus_edges (traversed (service_network_graphs self ! i) (path_edges path)))))
               / real (length (bus_edges (traversed (service_network_graphs self ! i)
                                            (path_edges path)))))"
      "number_of_services r =
         int (card (set (route_names (traversed (service_network_graphs self ! i) (path_edges path)))))"
      "transfers r =
         counted_changes (route_names (traversed (service_network_graphs self ! i) (path_edges path)))"
    unfolding path_edges_def by blast
  have "[] \<notin> set (route_names (traversed (service_network_graphs self ! i) (path_edges path)))
          \<longrightarrow> transfers r =
            route_changes (route_names (traversed (service_network_graphs self ! i) (path_edges path)))"
    using props(6) by (simp add: counted_changes_nonempty)
  with eq r props show ?thesis by (intro exI [of _ r] conjI) simp_all
qed

lemma analyze_flow_record_example:
  "list_index (fleet_assignments (two_hop_design ''route_1'' ''route_2'' 100))
      (two_route_assignment ''route_1'' ''route_2'') = Inr 0
   \<and> 0 < length (service_network_graphs (two_hop_design ''route_1'' ''route_2'' 100))
   \<and> path_0_1_2 (service_network_graphs (two_hop_design ''route_1'' ''route_2'' 100) ! 0) 0 2
        = Inr [0, 1, 2]
   \<and> list_all (edge_ok (service_network_graphs (two_hop_design ''route_1'' ''route_2'' 100) ! 0))
        (path_edges [0, 1, 2])
   \<and> [] \<notin> set (route_names (traversed (two_hop_graph ''route_1'' ''route_2'') (path_edges [0, 1, 2])))
   \<and> (\<exists>r. analyze_flow_for_assignment path_0_1_2 (two_hop_design ''route_1'' ''route_2'' 100)
             (two_route_assignment ''route_1'' ''route_2'') \<lparr>origin = 0, destination = 2, flow = 100\<rparr>
           = Inr r
         \<and> number_of_hops r = 2 \<and> average_travel_time r = 1/4 \<and> average_discomfort r = 1
         \<and> number_of_services r = 2 \<and> transfers r = 1)"
proof -
  let ?d = "two_hop_design ''route_1'' ''route_2'' 100"
  have h1: "list_index (fleet_assignments ?d) (two_route_assignment ''route_1'' ''route_2'') = Inr 0"
    by (rule two_hop_index)
  have h2: "0 < length (service_network_graphs ?d)"
    by (simp add: two_hop_design_def)
  have h3: "path_0_1_2 (service_network_graphs ?d ! 0)
              (origin \<lparr>origin = 0, destination = 2, flow = 100\<rparr>)
              (destination \<lparr>origin = 0, destination = 2, flow = 100\<rparr>) = Inr [0, 1, 2]"
    by (simp add: path_0_1_2_def)
  have h4: "list_all (edge_ok (service_network_graphs ?d ! 0)) (path_edges [0, 1, 2])"
    by (simp only: two_hop_graph_nth two_hop_ok)
  have names: "route_names (traversed (service_network_graphs ?d ! 0) (path_edges [0, 1, 2]))
                 = [''route_1'', ''route_2'']"
    by (simp only: two_hop_graph_nth two_hop_names)
  have bus: "bus_edges (traversed (service_network_graphs ?d ! 0) (path_edges [0, 1, 2]))
               = traversed (service_network_graphs ?d ! 0) (path_edges [0, 1, 2])"
    and tr: "traversed (service_network_graphs ?d ! 0) (path_edges [0, 1, 2])
               = map (\<lambda>e. snd (snd (snd e))) (two_hop_graph ''route_1'' ''route_2'')"
    by (simp_all add: two_hop_graph_nth path_edges_def traversed_def two_hop_graph_def
        multi_edge0_def bus_edges_def)
  from analyze_flow_record [where shortest_path = path_0_1_2
        and od_flow = "\<lparr>origin = 0, destination = 2, flow = 100\<rparr>", OF h1 h2 h3 h4]
  obtain r where "analyze_flow_for_assignment path_0_1_2 ?d
             (two_route_assignment ''route_1'' ''route_2'') \<lparr>origin = 0, destination = 2, flow = 100\<rparr>
           = Inr r"
    and "number_of_hops r = 2" and "average_travel_time r = 1/4" and "average_discomfort r = 1"
    and "number_of_services r = 2" and "transfers r = 1"
    unfolding names bus unfolding tr
    by (auto simp: two_hop_graph_def map_filter_simps)
  with h1 h2 h3 h4 names show ?thesis
    by (simp add: two_hop_graph_nth path_0_1_2_def)
qed

text \<open>
  Claim C6.  The claim: a transfer is counted exactly each time the route name of a bus
  edge differs from the route name of the bus edge before it.  The code at a recorded
  graph whose path from 0 to 2 runs over a bus edge of the route named by the empty
  string and then a bus edge of the route \<open>A\<close>: the two route names differ, which is one
  transfer, and the analysis returns 0 transfers; its other four values are as the
  claim says.
\<close>

theorem transfer_after_unnamed_route_not_counted:
  "new_ServiceNetworkDesign (two_routes '''' ''A'') [\<lparr>origin = 0, destination = 2, flow = 100\<rparr>]
       fleet2 street2
     = Inr ((two_hop_design '''' ''A'' 100)\<lparr>fleet_assignments := [], service_network_graphs := []\<rparr>)
   \<and> add_routes street2 (two_route_assignment '''' ''A'') (fleet fleet2) (two_routes '''' ''A'') []
       = Inr (two_hop_graph '''' ''A'')
   \<and> analyze_flow_for_assignment path_0_1_2 (two_hop_design '''' ''A'' 100)
     (two_route_assignment '''' ''A'') \<lparr>origin = 0, destination = 2, flow = 100\<rparr>
   = Inr \<lparr>average_travel_time = 1/4, number_of_hops = 2, number_of_services = 2,
          transfers = 0, average_discomfort = 1\<rparr>
   \<and> route_names (traversed (two_hop_graph '''' ''A'') (path_edges [0, 1, 2])) = ['''', ''A'']
   \<and> route_changes ['''', ''A''] = 1"
  using two_hop_design_accepted [of "''''" "''A''" 100] two_hop_graph_built [of "''''" "''A''"]
  by (simp add: two_hop_analysis two_hop_names)


section \<open>Demand-weighted aggregates without demand\<close>

lemma weighted_metrics_total:
  assumes "\<forall>od \<in> set ods. \<exists>r. analyze_flow_for_assignment sp self a od = Inr r"
  shows "\<exists>xs. weighted_metrics sp self a metric ods = Inr xs"
  using assms by (induction ods) auto

lemma weighted_metrics_first_error:
  assumes "\<forall>od \<in> set ods1. \<exists>r. analyze_flow_for_assignment sp self a od = Inr r"
    and "analyze_flow_for_assignment sp self a od = Inl e"
  shows "weighted_metrics sp self a metric (ods1 @ od # ods2) = Inl e"
  using assms by (induction ods1) auto

lemma zero_flows_sum:
  "\<forall>od \<in> set ods. flow od = 0 \<Longrightarrow> sum_list [flow od. od \<leftarrow> ods] = 0"
  by (induction ods) auto

lemma mean_first_error:
  assumes "od_flows self = ods1 @ od # ods2"
    and "\<forall>od' \<in> set ods1. \<exists>r. analyze_flow_for_assignment sp self a od' = Inr r"
    and "analyze_flow_for_assignment sp self a od = Inl e"
  shows "demand_weighted_mean sp self a metric = Inl e"
  using weighted_metrics_first_error [OF assms(2,3), of metric ods2] assms(1)
  by (simp add: demand_weighted_mean_def)

lemma zero_demand_mean:
  assumes "\<forall>od \<in> set (od_flows self). flow od = 0"
  shows "(\<exists>e. demand_weighted_mean sp self a metric = Inl e)
       \<and> ((\<forall>od \<in> set (od_flows self). \<exists>r. analyze_flow_for_assignment sp self a od = Inr r)
            \<longrightarrow> demand_weighted_mean sp self a metric = Inl ZeroDivisionError)"
proof -
  have z: "sum_list [flow od. od \<leftarrow> od_flows self] = 0"
    by (rule zero_flows_sum [OF assms])
  have 1: "\<exists>e. demand_weighted_mean sp self a metric = Inl e"
    by (cases "weighted_metrics sp self a metric (od_flows self)")
       (simp_all add: demand_weighted_mean_def z)
  have 2: "demand_weighted_mean sp self a metric = Inl ZeroDivisionError"
    if "\<forall>od \<in> set (od_flows self). \<exists>r. analyze_flow_for_assignment sp self a od = Inr r"
  proof -
    from weighted_metrics_total [OF that] obtain xs
      where "weighted_metrics sp self a metric (od_flows self) = Inr xs" by blast
    then show ?thesis by (simp add: demand_weighted_mean_def z)
  qed
  from 1 2 show ?thesis by blast
qed

text \<open>
  Claim C10, as amended.  On a design all of whose OD flows have volume 0, none of the
  four demand-weighted aggregates returns a value: each raises.  When the flow analysis
  returns a record for every OD flow, what each raises is the division by zero;
  otherwise each raises the error of the first flow analysis that raises, in the order
  of the OD flows.
\<close>

theorem zero_demand_aggregates_raise:
  assumes zero: "\<forall>od \<in> set (od_flows self). flow od = 0"
  shows "(\<exists>e. avg_travel_time_for_assignment sp self a = Inl e)
       \<and> (\<exists>e. avg_discomfort_level_for_assignment sp self a = Inl e)
       \<and> (\<exists>e. avg_transfers_for_assignment sp self a = Inl e)
       \<and> (\<exists>e. avg_hops_for_assignment sp self a = Inl e)
       \<and> ((\<forall>od \<in> set (od_flows self). \<exists>r. analyze_flow_for_assignment sp self a od = Inr r)
            \<longrightarrow> avg_travel_time_for_assignment sp self a = Inl ZeroDivisionError
              \<and> avg_discomfort_level_for_assignment sp self a = Inl ZeroDivisionError
              \<and> avg_transfers_for_assignment sp self a = Inl ZeroDivisionError
              \<and> avg_hops_for_assignment sp self a = Inl ZeroDivisionError)
       \<and> (\<forall>ods1 od ods2 e.
             od_flows self = ods1 @ od # ods2
             \<and> (\<forall>od' \<in> set ods1. \<exists>r. analyze_flow_for_assignment sp self a od' = Inr r)
             \<and> analyze_flow_for_assignment sp self a od = Inl e
            \<longrightarrow> avg_travel_time_for_assignment sp self a = Inl e
              \<and> avg_discomfort_level_for_assignment sp self a = Inl e
              \<and> avg_transfers_for_assignment sp self a = Inl e
              \<and> avg_hops_for_assignment sp self a = Inl e)"
proof -
  have first: "demand_weighted_mean sp self a metric = Inl e"
    if "od_flows self = ods1 @ od # ods2
        \<and> (\<forall>od' \<in> set ods1. \<exists>r. analyze_flow_for_assignment sp self a od' = Inr r)
        \<and> analyze_flow_for_assignment sp self a od = Inl e"
    for metric ods1 od ods2 e
    using that mean_first_error [of self ods1 od ods2 sp a e metric] by blast
  show ?thesis
    unfolding avg_travel_time_for_assignment_def avg_discomfort_level_for_assignment_def
      avg_transfers_for_assignment_def avg_hops_for_assignment_def
    using zero_demand_mean [OF zero, of sp a average_travel_time]
      zero_demand_mean [OF zero, of sp a average_discomfort]
      zero_demand_mean [OF zero, of sp a "\<lambda>r. real_of_int (transfers r)"]
      zero_demand_mean [OF zero, of sp a "\<lambda>r. real_of_int (number_of_hops r)"]
      first
    by (intro conjI allI impI) blast+
qed

lemma two_hop_analysis_flows:
  "analyze_flow_for_assignment path_0_1_2 ((two_hop_design a b f)\<lparr>od_flows := ods\<rparr>)
     (two_route_assignment a b) \<lparr>origin = 0, destination = 2, flow = f'\<rparr>
   = Inr \<lparr>average_travel_time = 1/4, number_of_hops = 2,
          number_of_services = (if a = b then 1 else 2),
          transfers = (if a \<noteq> [] \<and> a \<noteq> b then 1 else 0), average_discomfort = 1\<rparr>"
  by (simp add: analyze_flow_for_assignment_def two_hop_index)
     (auto simp add: two_hop_design_def path_0_1_2_def analyze_path_def two_hop_graph_def
        walk_edge_def multi_edge0_def str_truth_def Let_def card_insert_if)

lemma two_hop_no_path:
  "analyze_flow_for_assignment path_0_1_2 ((two_hop_design a b f)\<lparr>od_flows := ods\<rparr>)
     (two_route_assignment a b) \<lparr>origin = 2, destination = 0, flow = f'\<rparr>
   = Inl NetworkXNoPath"
  by (simp add: analyze_flow_for_assignment_def two_hop_index)
     (simp add: two_hop_design_def path_0_1_2_def)

lemma unrecorded_analysis:
  "analyze_flow_for_assignment sp (d\<lparr>fleet_assignments := [], service_network_graphs := gs\<rparr>) a od
   = Inl ValueError"
  by (simp add: analyze_flow_for_assignment_def)

theorem zero_demand_aggregates_raise_witness:
  "new_ODFlow 0 2 0 = Inr \<lparr>origin = 0, destination = 2, flow = 0\<rparr>
   \<and> map flow (od_flows (two_hop_design ''route_1'' ''route_2'' 0)) = [0]
   \<and> avg_travel_time_for_assignment path_0_1_2 (two_hop_design ''route_1'' ''route_2'' 0)
        (two_route_assignment ''route_1'' ''route_2'') = Inl ZeroDivisionError
   \<and> avg_discomfort_level_for_assignment path_0_1_2 (two_hop_design ''route_1'' ''route_2'' 0)
        (two_route_assignment ''route_1'' ''route_2'') = Inl ZeroDivisionError
   \<and> avg_transfers_for_assignment path_0_1_2 (two_hop_design ''route_1'' ''route_2'' 0)
        (two_route_assignment ''route_1'' ''route_2'') = Inl ZeroDivisionError
   \<and> avg_hops_for_assignment path_0_1_2 (two_hop_design ''route_1'' ''route_2'' 0)
        (two_route_assignment ''route_1'' ''route_2'') = Inl ZeroDivisionError
   \<and> avg_travel_time_for_assignment path_0_1_2
        ((two_hop_design ''route_1'' ''route_2'' 0)
           \<lparr>od_flows := [\<lparr>origin = 0, destination = 2, flow = 0\<rparr>,
                         \<lparr>origin = 2, destination = 0, flow = 0\<rparr>]\<rparr>)
        (two_route_assignment ''route_1'' ''route_2'') = Inl NetworkXNoPath
   \<and> avg_hops_for_assignment path_0_1_2
        ((two_hop_design ''route_1'' ''route_2'' 0)
           \<lparr>od_flows := [\<lparr>origin = 0, destination = 2, flow = 0\<rparr>,
                         \<lparr>origin = 2, destination = 0, flow = 0\<rparr>]\<rparr>)
        (two_route_assignment ''route_1'' ''route_2'') = Inl NetworkXNoPath"
proof -
  let ?d = "two_hop_design ''route_1'' ''route_2'' 0"
  let ?a = "two_route_assignment ''route_1'' ''route_2''"
  let ?ok = "\<lparr>origin = 0, destination = 2, flow = 0\<rparr>"
  let ?bad = "\<lparr>origin = 2, destination = 0, flow = 0\<rparr>"
  let ?d2 = "?d\<lparr>od_flows := [?ok, ?bad]\<rparr>"
  have ods: "od_flows ?d = [?ok]"
    by (simp add: two_hop_design_def)
  have zero: "\<forall>od \<in> set (od_flows ?d). flow od = 0"
    by (simp add: ods)
  have all: "\<forall>od \<in> set (od_flows ?d). \<exists>r. analyze_flow_for_assignment path_0_1_2 ?d ?a od = Inr r"
    by (simp add: ods two_hop_analysis)
  have zero2: "\<forall>od \<in> set (od_flows ?d2). flow od = 0"
    by simp
  have split: "od_flows ?d2 = [?ok] @ ?bad # []"
    by simp
  have pre: "\<forall>od' \<in> set [?ok]. \<exists>r. analyze_flow_for_assignment path_0_1_2 ?d2 ?a od' = Inr r"
    by (simp add: two_hop_analysis_flows)
  have bad: "analyze_flow_for_assignment path_0_1_2 ?d2 ?a ?bad = Inl NetworkXNoPath"
    by (rule two_hop_no_path)
  from zero_demand_aggregates_raise [OF zero, of path_0_1_2 ?a] all
  have 1: "avg_travel_time_for_assignment path_0_1_2 ?d ?a = Inl ZeroDivisionError
         \<and> avg_discomfort_level_for_assignment path_0_1_2 ?d ?a = Inl ZeroDivisionError
         \<and> avg_transfers_for_assignment path_0_1_2 ?d ?a = Inl ZeroDivisionError
         \<and> avg_hops_for_assignment path_0_1_2 ?d ?a = Inl ZeroDivisionError"
    by blast
  from zero_demand_aggregates_raise [OF zero2, of path_0_1_2 ?a] split pre bad
  have 2: "avg_travel_time_for_assignment path_0_1_2 ?d2 ?a = Inl NetworkXNoPath
         \<and> avg_hops_for_assignment path_0_1_2 ?d2 ?a = Inl NetworkXNoPath"
    by blast
  from 1 2 ods show ?thesis
    by (simp add: new_ODFlow_def)
qed

text \<open>
  The claim as stated fails where a flow analysis raises, which it does before the
  division: for an assignment that is not in the history \<open>list.index\<close> raises
  \<open>ValueError\<close>, and for an OD flow without a path in the service graph each aggregate
  raises the error of the shortest-path routine.
\<close>

theorem zero_demand_aggregate_other_error:
  "new_ServiceNetworkDesign (two_routes ''route_1'' ''route_2'')
        [\<lparr>origin = 0, destination = 2, flow = 0\<rparr>] fleet2 street2
      = Inr ((two_hop_design ''route_1'' ''route_2'' 0)
               \<lparr>fleet_assignments := [], service_network_graphs := []\<rparr>)
   \<and> avg_travel_time_for_assignment path_0_1_2
        ((two_hop_design ''route_1'' ''route_2'' 0)
           \<lparr>fleet_assignments := [], service_network_graphs := []\<rparr>)
        (two_route_assignment ''route_1'' ''route_2'') = Inl ValueError
   \<and> avg_discomfort_level_for_assignment path_0_1_2
        ((two_hop_design ''route_1'' ''route_2'' 0)
           \<lparr>fleet_assignments := [], service_network_graphs := []\<rparr>)
        (two_route_assignment ''route_1'' ''route_2'') = Inl ValueError
   \<and> avg_transfers_for_assignment path_0_1_2
        ((two_hop_design ''route_1'' ''route_2'' 0)
           \<lparr>fleet_assignments := [], service_network_graphs := []\<rparr>)
        (two_route_assignment ''route_1'' ''route_2'') = Inl ValueError
   \<and> avg_hops_for_assignment path_0_1_2
        ((two_hop_design ''route_1'' ''route_2'' 0)
           \<lparr>fleet_assignments := [], service_network_graphs := []\<rparr>)
        (two_route_assignment ''route_1'' ''route_2'') = Inl ValueError
   \<and> avg_travel_time_for_assignment path_0_1_2
        ((two_hop_design ''route_1'' ''route_2'' 0)
           \<lparr>od_flows := [\<lparr>origin = 2, destination = 0, flow = 0\<rparr>]\<rparr>)
        (two_route_assignment ''route_1'' ''route_2'') = Inl NetworkXNoPath
   \<and> avg_discomfort_level_for_assignment path_0_1_2
        ((two_hop_design ''route_1'' ''route_2'' 0)
           \<lparr>od_flows := [\<lparr>origin = 2, destination = 0, flow = 0\<rparr>]\<rparr>)
        (two_route_assignment ''route_1'' ''route_2'') = Inl NetworkXNoPath
   \<and> avg_transfers_for_assignment path_0_1_2
        ((two_hop_design ''route_1'' ''route_2'' 0)
           \<lparr>od_flows := [\<lparr>origin = 2, destination = 0, flow = 0\<rparr>]\<rparr>)
        (two_route_assignment ''route_1'' ''route_2'') = Inl NetworkXNoPath
   \<and> avg_hops_for_assignment path_0_1_2
        ((two_hop_design ''route_1'' ''route_2'' 0)
           \<lparr>od_flows := [\<lparr>origin = 2, destination = 0, flow = 0\<rparr>]\<rparr>)
        (two_route_assignment ''route_1'' ''route_2'') = Inl NetworkXNoPath"
proof -
  have mean1: "demand_weighted_mean path_0_1_2
        ((two_hop_design ''route_1'' ''route_2'' 0)
           \<lparr>fleet_assignments := [], service_network_graphs := []\<rparr>)
        (two_route_assignment ''route_1'' ''route_2'') metric = Inl ValueError" for metric
  proof -
    have "od_flows ((two_hop_design ''route_1'' ''route_2'' 0)
             \<lparr>fleet_assignments := [], service_network_graphs := []\<rparr>)
          = [\<lparr>origin = 0, destination = 2, flow = 0\<rparr>]"
      by (simp add: two_hop_design_def)
    then show ?thesis
      by (simp only: demand_weighted_mean_def weighted_metrics.simps unrecorded_analysis
          sum.case)
  qed
  have mean2: "demand_weighted_mean path_0_1_2
        ((two_hop_design ''route_1'' ''route_2'' 0)
           \<lparr>od_flows := [\<lparr>origin = 2, destination = 0, flow = 0\<rparr>]\<rparr>)
        (two_route_assignment ''route_1'' ''route_2'') metric = Inl NetworkXNoPath" for metric
    by (rule mean_first_error [where ?ods1.0 = "[]" and ?ods2.0 = "[]"
            and od = "\<lparr>origin = 2, destination = 0, flow = 0\<rparr>"])
       (simp_all add: two_hop_no_path)
  have "''route_1'' \<noteq> ''route_2''" by simp
  from two_hop_design_accepted [OF this, of 0] show ?thesis
    by (simp add: avg_travel_time_for_assignment_def avg_discomfort_level_for_assignment_def
        avg_transfers_for_assignment_def avg_hops_for_assignment_def mean1 mean2)
qed

end
